theory Spec2Isabelle
  imports Complex_Main
begin

section \<open>JavaScript numbers\<close>

text \<open>
  The handler of \<^verbatim>\<open>src/pages/index.tsx\<close> computes with JavaScript numbers. They are
  modelled as the extended reals with a not-a-number value: a finite value, the two
  infinities and \<^verbatim>\<open>NaN\<close>. There is one zero (the sign of a zero, which only decides
  the sign of a quotient by zero, is not tracked: a zero divisor counts as \<^verbatim>\<open>+0\<close>).
  The special values follow IEEE 754 as JavaScript has it: \<^verbatim>\<open>NaN\<close> is contagious,
  every comparison with \<^verbatim>\<open>NaN\<close> is false, \<^verbatim>\<open>x / 0\<close> is an infinity or \<^verbatim>\<open>NaN\<close>, and
  \<^verbatim>\<open>Infinity - Infinity\<close> is \<^verbatim>\<open>NaN\<close>.

  Two arithmetics are defined on these numbers. The operations \<open>jadd\<close>, \<open>jsub\<close>,
  \<open>jmul\<close>, \<open>jdiv\<close>, \<open>jsqrt\<close> and \<open>jpow2\<close> are exact on finite values. The operations
  \<open>fadd\<close>, \<open>fsub\<close>, \<open>fmul\<close>, \<open>fdiv\<close>, \<open>fsqrt\<close> and \<open>fpow2\<close> round every finite
  result as a double does: to 53 significant bits, to the nearest value, ties to the
  even one. The exponent of a rounded value is not bounded, so a finite result never
  overflows to an infinity and never underflows to zero. The returns, the VWAP and the
  EMA are modelled with the exact operations; the z-score block compares a computed
  standard deviation with zero, where rounding decides the branch, and is modelled
  with the rounding operations.

  The exchange sends prices and volumes as decimal numerals in strings;
  \<^verbatim>\<open>parseFloat\<close> turns a string that is no numeral into \<^verbatim>\<open>NaN\<close>, and the handler tests
  for \<^verbatim>\<open>NaN\<close> throughout.
\<close>

datatype jsnum = Fin real | PInf | NInf | NaN

fun jneg :: "jsnum \<Rightarrow> jsnum" where
  "jneg (Fin a) = Fin (- a)"
| "jneg PInf = NInf"
| "jneg NInf = PInf"
| "jneg NaN = NaN"

fun jadd :: "jsnum \<Rightarrow> jsnum \<Rightarrow> jsnum" where
  "jadd NaN _ = NaN"
| "jadd _ NaN = NaN"
| "jadd (Fin a) (Fin b) = Fin (a + b)"
| "jadd PInf NInf = NaN"
| "jadd NInf PInf = NaN"
| "jadd PInf _ = PInf"
| "jadd _ PInf = PInf"
| "jadd NInf _ = NInf"
| "jadd _ NInf = NInf"

definition jsub :: "jsnum \<Rightarrow> jsnum \<Rightarrow> jsnum" where
  "jsub x y = jadd x (jneg y)"

text \<open>The sign of a number: \<open>1\<close>, \<open>0\<close> or \<open>-1\<close>; \<^verbatim>\<open>NaN\<close> has none.\<close>

fun jsign :: "jsnum \<Rightarrow> int option" where
  "jsign (Fin a) = Some (if a > 0 then 1 else if a < 0 then - 1 else 0)"
| "jsign PInf = Some 1"
| "jsign NInf = Some (- 1)"
| "jsign NaN = None"

fun jmul :: "jsnum \<Rightarrow> jsnum \<Rightarrow> jsnum" where
  "jmul NaN _ = NaN"
| "jmul _ NaN = NaN"
| "jmul (Fin a) (Fin b) = Fin (a * b)"
| "jmul x y =
     (case (jsign x, jsign y) of
        (Some s, Some t) \<Rightarrow> (if s * t = 0 then NaN else if s * t > 0 then PInf else NInf)
      | _ \<Rightarrow> NaN)"

fun jdiv :: "jsnum \<Rightarrow> jsnum \<Rightarrow> jsnum" where
  "jdiv NaN _ = NaN"
| "jdiv _ NaN = NaN"
| "jdiv (Fin a) (Fin b) =
     (if b \<noteq> 0 then Fin (a / b)
      else if a > 0 then PInf else if a < 0 then NInf else NaN)"
| "jdiv (Fin a) _ = Fin 0"
| "jdiv PInf (Fin b) = (if b \<ge> 0 then PInf else NInf)"
| "jdiv NInf (Fin b) = (if b \<ge> 0 then NInf else PInf)"
| "jdiv _ _ = NaN"

text \<open>\<^verbatim>\<open>x > y\<close>, \<^verbatim>\<open>x >= y\<close>, \<^verbatim>\<open>x < y\<close> and \<^verbatim>\<open>x <= y\<close>: false when either side is \<^verbatim>\<open>NaN\<close>.\<close>

fun jgt :: "jsnum \<Rightarrow> jsnum \<Rightarrow> bool" where
  "jgt NaN _ = False"
| "jgt _ NaN = False"
| "jgt (Fin a) (Fin b) = (a > b)"
| "jgt PInf PInf = False"
| "jgt PInf _ = True"
| "jgt _ PInf = False"
| "jgt NInf _ = False"
| "jgt _ NInf = True"

fun jge :: "jsnum \<Rightarrow> jsnum \<Rightarrow> bool" where
  "jge NaN _ = False"
| "jge _ NaN = False"
| "jge x y = (x = y \<or> jgt x y)"

definition jlt :: "jsnum \<Rightarrow> jsnum \<Rightarrow> bool" where
  "jlt x y = jgt y x"

definition jle :: "jsnum \<Rightarrow> jsnum \<Rightarrow> bool" where
  "jle x y = jge y x"

fun isNaN :: "jsnum \<Rightarrow> bool" where
  "isNaN NaN = True"
| "isNaN _ = False"

fun isFinite :: "jsnum \<Rightarrow> bool" where
  "isFinite (Fin a) = True"
| "isFinite _ = False"

text \<open>Truthiness of a number: \<^verbatim>\<open>0\<close> and \<^verbatim>\<open>NaN\<close> are falsy.\<close>

fun truthy :: "jsnum \<Rightarrow> bool" where
  "truthy (Fin a) = (a \<noteq> 0)"
| "truthy NaN = False"
| "truthy _ = True"

text \<open>\<^verbatim>\<open>Math.sqrt\<close> and \<^verbatim>\<open>Math.pow(x, 2)\<close>.\<close>

fun jsqrt :: "jsnum \<Rightarrow> jsnum" where
  "jsqrt (Fin a) = (if a \<ge> 0 then Fin (sqrt a) else NaN)"
| "jsqrt PInf = PInf"
| "jsqrt NInf = NaN"
| "jsqrt NaN = NaN"

fun jpow2 :: "jsnum \<Rightarrow> jsnum" where
  "jpow2 (Fin a) = Fin (a * a)"
| "jpow2 PInf = PInf"
| "jpow2 NInf = PInf"
| "jpow2 NaN = NaN"

subsection \<open>Rounding\<close>

text \<open>
  The nearest integer, ties to the even one; and the rounding of a real to 53
  significant bits: for \<open>2 ^ e \<le> \<bar>x\<bar> < 2 ^ (e + 1)\<close> the doubles near \<open>x\<close> are the
  multiples of \<open>2 ^ (e - 52)\<close>.
\<close>

definition roundEven :: "real \<Rightarrow> int" where
  "roundEven q =
     (let f = \<lfloor>q\<rfloor>; d = q - of_int f
      in if d < 1 / 2 then f else if d > 1 / 2 then f + 1
         else if even f then f else f + 1)"

definition round53 :: "real \<Rightarrow> real" where
  "round53 x =
     (if x = 0 then 0
      else let e = \<lfloor>log 2 \<bar>x\<bar>\<rfloor> - 52
           in of_int (roundEven (x / 2 powr of_int e)) * 2 powr of_int e)"

fun rounded :: "jsnum \<Rightarrow> jsnum" where
  "rounded (Fin a) = Fin (round53 a)"
| "rounded x = x"

text \<open>
  The operators \<^verbatim>\<open>+\<close>, \<^verbatim>\<open>-\<close>, \<^verbatim>\<open>*\<close>, \<^verbatim>\<open>/\<close>, \<^verbatim>\<open>Math.sqrt\<close> and \<^verbatim>\<open>Math.pow(x, 2)\<close> on
  doubles: the exact result, rounded. \<^verbatim>\<open>Math.pow(x, 2)\<close> is taken to be the correctly
  rounded square, as \<^verbatim>\<open>x * x\<close> is.
\<close>

definition fadd :: "jsnum \<Rightarrow> jsnum \<Rightarrow> jsnum" where
  "fadd x y = rounded (jadd x y)"

definition fsub :: "jsnum \<Rightarrow> jsnum \<Rightarrow> jsnum" where
  "fsub x y = rounded (jsub x y)"

definition fmul :: "jsnum \<Rightarrow> jsnum \<Rightarrow> jsnum" where
  "fmul x y = rounded (jmul x y)"

definition fdiv :: "jsnum \<Rightarrow> jsnum \<Rightarrow> jsnum" where
  "fdiv x y = rounded (jdiv x y)"

definition fsqrt :: "jsnum \<Rightarrow> jsnum" where
  "fsqrt x = rounded (jsqrt x)"

definition fpow2 :: "jsnum \<Rightarrow> jsnum" where
  "fpow2 x = rounded (jpow2 x)"

section \<open>Candles and the indicator engine\<close>

text \<open>
  A \<^verbatim>\<open>BinanceKline\<close> row: a seven-component array. The price and volume
  components arrive as strings and the handler reads each of them through
  \<^verbatim>\<open>parseFloat\<close>; a field of the record holds the number \<^verbatim>\<open>parseFloat\<close> returns on
  that string (\<^verbatim>\<open>NaN\<close> when it does not parse). \<open>k_close\<close> is \<^verbatim>\<open>parseFloat(kline[4])\<close>.
\<close>

record kline =
  k_openTime :: int
  k_open :: jsnum
  k_high :: jsnum
  k_low :: jsnum
  k_close :: jsnum
  k_volume :: jsnum
  k_closeTime :: int

text \<open>\<^verbatim>\<open>xs.slice(-n)\<close>: the last \<open>n\<close> elements, and the whole array for \<open>n = 0\<close>.\<close>

definition sliceLast :: "nat \<Rightarrow> 'a list \<Rightarrow> 'a list" where
  "sliceLast n xs = (if n = 0 then xs else drop (length xs - n) xs)"

subsection \<open>Rolling returns\<close>

text \<open>\<^verbatim>\<open>((currentPrice - c) / c) * 100\<close>, the expression the three returns share.\<close>

definition pctChange :: "jsnum \<Rightarrow> jsnum \<Rightarrow> jsnum" where
  "pctChange currentPrice c = jmul (jdiv (jsub currentPrice c) c) (Fin 100)"

definition calcDailyReturn :: "jsnum \<Rightarrow> kline list \<Rightarrow> jsnum" where
  "calcDailyReturn currentPrice klines =
     (if length klines \<ge> 2
      then pctChange currentPrice (k_close (klines ! (length klines - 2)))
      else Fin 0)"

definition calcWeeklyReturn :: "jsnum \<Rightarrow> kline list \<Rightarrow> jsnum" where
  "calcWeeklyReturn currentPrice klines =
     (if length klines \<ge> 8
      then pctChange currentPrice (k_close (klines ! (length klines - 8)))
      else Fin 0)"

definition calcMonthlyReturn :: "jsnum \<Rightarrow> kline list \<Rightarrow> jsnum" where
  "calcMonthlyReturn currentPrice klines =
     (if length klines \<ge> 30
      then pctChange currentPrice (k_close (klines ! (length klines - 30)))
      else Fin 0)"

subsection \<open>VWAP\<close>

record vwapResult =
  vwap :: jsnum
  distance :: jsnum

definition typicalPrice :: "kline \<Rightarrow> jsnum" where
  "typicalPrice k = jdiv (jadd (jadd (k_high k) (k_low k)) (k_close k)) (Fin 3)"

text \<open>
  The \<^verbatim>\<open>for (const kline of periodKlines)\<close> loop of \<^verbatim>\<open>calculateVWAP\<close>, with its two
  accumulators \<^verbatim>\<open>totalPriceVolume\<close> and \<^verbatim>\<open>totalVolume\<close>.
\<close>

fun vwapLoop :: "kline list \<Rightarrow> jsnum \<times> jsnum \<Rightarrow> jsnum \<times> jsnum" where
  "vwapLoop [] acc = acc"
| "vwapLoop (k # ks) (totalPriceVolume, totalVolume) =
     vwapLoop ks (jadd totalPriceVolume (jmul (typicalPrice k) (k_volume k)),
                  jadd totalVolume (k_volume k))"

definition calculateVWAP :: "jsnum \<Rightarrow> kline list \<Rightarrow> nat \<Rightarrow> vwapResult" where
  "calculateVWAP currentPrice klines days =
     (let periodKlines = sliceLast days klines;
          (totalPriceVolume, totalVolume) = vwapLoop periodKlines (Fin 0, Fin 0);
          v = (if jgt totalVolume (Fin 0) then jdiv totalPriceVolume totalVolume
               else currentPrice);
          d = (if jgt v (Fin 0) then jmul (jdiv (jsub currentPrice v) v) (Fin 100)
               else Fin 0)
      in \<lparr>vwap = v, distance = d\<rparr>)"

subsection \<open>EMA\<close>

datatype jserror = TypeError

text \<open>The filter of \<^verbatim>\<open>calculateEMA\<close>: \<^verbatim>\<open>!isNaN(close) && close > 0 && isFinite(close)\<close>.\<close>

definition validClose :: "kline \<Rightarrow> bool" where
  "validClose k = (\<not> isNaN (k_close k) \<and> jgt (k_close k) (Fin 0) \<and> isFinite (k_close k))"

text \<open>
  The loop \<^verbatim>\<open>for (let i = 1; i < validKlines.length; i++)\<close>, started at index \<open>i\<close> with
  the running value \<open>ema\<close>.
\<close>

function emaLoop :: "kline list \<Rightarrow> jsnum \<Rightarrow> nat \<Rightarrow> jsnum \<Rightarrow> jsnum" where
  "emaLoop validKlines k i ema =
     (if i < length validKlines
      then emaLoop validKlines k (i + 1)
             (jadd (jmul (k_close (validKlines ! i)) k) (jmul ema (jsub (Fin 1) k)))
      else ema)"
  by pat_completeness auto
termination
  by (relation "measure (\<lambda>(validKlines, k, i, ema). length validKlines - i)") auto

text \<open>
  \<^verbatim>\<open>calculateEMA(klines, period)\<close>. Reading \<^verbatim>\<open>validKlines[0][4]\<close> of an empty array
  throws a \<^verbatim>\<open>TypeError\<close> (reachable only with a period of zero).
\<close>

definition calculateEMA :: "jsnum \<Rightarrow> kline list \<Rightarrow> nat \<Rightarrow> jserror + jsnum" where
  "calculateEMA currentPrice klines period =
     (if length klines < period then Inr currentPrice
      else
        let validKlines = filter validClose klines in
        if length validKlines < period then Inr currentPrice
        else if validKlines = [] then Inl TypeError
        else
          let k = jdiv (Fin 2) (jadd (Fin (real period)) (Fin 1));
              ema = emaLoop validKlines k 1 (k_close (validKlines ! 0))
          in if isNaN ema \<or> jle ema (Fin 0) \<or> \<not> isFinite ema then Inr currentPrice
             else Inr ema)"

subsection \<open>Z-score\<close>

text \<open>
  This block is computed in doubles: every operation rounds its result.
  \<open>pctChangeF c p\<close> is \<^verbatim>\<open>((c - p) / p) * 100\<close>.
\<close>

definition pctChangeF :: "jsnum \<Rightarrow> jsnum \<Rightarrow> jsnum" where
  "pctChangeF c p = fmul (fdiv (fsub c p) p) (Fin 100)"

text \<open>
  The loop \<^verbatim>\<open>for (let i = 1; i < recentKlines.length; i++)\<close> that pushes a day-over-day
  return for every pair of neighbouring candles whose closes are both positive.
\<close>

function histLoop :: "kline list \<Rightarrow> nat \<Rightarrow> jsnum list \<Rightarrow> jsnum list" where
  "histLoop recentKlines i historicalReturns =
     (if i < length recentKlines
      then
        let prevClose = k_close (recentKlines ! (i - 1));
            currClose = k_close (recentKlines ! i)
        in if jgt prevClose (Fin 0) \<and> jgt currClose (Fin 0)
              \<and> \<not> isNaN prevClose \<and> \<not> isNaN currClose
           then histLoop recentKlines (i + 1)
                  (historicalReturns @ [pctChangeF currClose prevClose])
           else histLoop recentKlines (i + 1) historicalReturns
      else historicalReturns)"
  by pat_completeness auto
termination
  by (relation "measure (\<lambda>(recentKlines, i, historicalReturns). length recentKlines - i)") auto

text \<open>\<^verbatim>\<open>historicalReturns.reduce((sum, val) => sum + val, 0) / historicalReturns.length\<close>\<close>

definition meanOf :: "jsnum list \<Rightarrow> jsnum" where
  "meanOf historicalReturns =
     fdiv (foldl (\<lambda>sum val. fadd sum val) (Fin 0) historicalReturns)
          (Fin (real (length historicalReturns)))"

definition varianceOf :: "jsnum list \<Rightarrow> jsnum" where
  "varianceOf historicalReturns =
     fdiv (foldl (\<lambda>sum val. fadd sum (fpow2 (fsub val (meanOf historicalReturns))))
                 (Fin 0) historicalReturns)
          (Fin (real (length historicalReturns)))"

text \<open>
  The z-score block; \<open>None\<close> is \<^verbatim>\<open>undefined\<close>. The \<open>dailyReturn\<close> argument is the
  handler's \<^verbatim>\<open>dailyReturn\<close>, which the block falls back to for today's return.
\<close>

definition calcZScore :: "jsnum \<Rightarrow> jsnum \<Rightarrow> kline list \<Rightarrow> jsnum option" where
  "calcZScore currentPrice dailyReturn klines =
     (if length klines \<ge> 31
      then
        let recentKlines = sliceLast 31 klines;
            historicalReturns = histLoop recentKlines 1 []
        in if length historicalReturns \<ge> 30
           then
             let mean = meanOf historicalReturns;
                 stdDev = fsqrt (varianceOf historicalReturns);
                 lastCandleClose = k_close (klines ! (length klines - 1));
                 todayReturn =
                   (if jgt lastCandleClose (Fin 0)
                    then pctChangeF currentPrice lastCandleClose
                    else dailyReturn)
             in if jgt stdDev (Fin 0) \<and> \<not> isNaN mean \<and> \<not> isNaN stdDev \<and> \<not> isNaN todayReturn
                then Some (fdiv (fsub mean todayReturn) stdDev)
                else None
           else None
      else None)"

section \<open>Retry with backoff\<close>

text \<open>
  What the handler reads of an error thrown by \<^verbatim>\<open>axios\<close>:
  \<^verbatim>\<open>error?.response?.status\<close> (\<open>None\<close> when there is no response) and the
  \<^verbatim>\<open>retry-after\<close> header, as the number \<^verbatim>\<open>parseInt\<close> returns on it (\<open>None\<close> when the
  header is missing or empty, \<^verbatim>\<open>NaN\<close> when it is not a number).
\<close>

record httpError =
  responseStatus :: "nat option"
  retryAfter :: "jsnum option"

text \<open>One invocation of the wrapped \<^verbatim>\<open>fn\<close>: the promise resolves or rejects.\<close>

datatype 'a attempt = Resolves 'a | Rejects httpError

text \<open>
  How a call of \<^verbatim>\<open>retryWithBackoff\<close> ends: it returns the value of \<^verbatim>\<open>fn\<close>, throws, or
  falls out of the loop and returns \<^verbatim>\<open>null\<close>. \<open>calls\<close> counts the invocations of
  \<^verbatim>\<open>fn\<close> and \<open>delays\<close> lists the arguments of \<^verbatim>\<open>delay\<close> (milliseconds), in order.
\<close>

datatype 'a retryResult = Returned 'a | Threw httpError | ReturnedNull

record 'a retryRun =
  result :: "'a retryResult"
  calls :: nat
  delays :: "jsnum list"

definition retryDelay :: "httpError \<Rightarrow> nat \<Rightarrow> nat \<Rightarrow> jsnum" where
  "retryDelay error baseDelay attempt =
     (case retryAfter error of
        Some seconds \<Rightarrow> jmul seconds (Fin 1000)
      | None \<Rightarrow> jmul (Fin (real baseDelay)) (Fin (2 ^ attempt)))"

text \<open>
  The \<^verbatim>\<open>for\<close> loop of \<^verbatim>\<open>retryWithBackoff\<close> from \<open>attempt\<close> on; \<open>fn i\<close> is what the
  invocation of \<^verbatim>\<open>fn\<close> in iteration \<open>i\<close> does.
\<close>

function retryLoop ::
  "(nat \<Rightarrow> 'a attempt) \<Rightarrow> nat \<Rightarrow> nat \<Rightarrow> nat \<Rightarrow> jsnum list \<Rightarrow> 'a retryRun" where
  "retryLoop fn maxRetries baseDelay attempt waited =
     (if attempt < maxRetries
      then
        (case fn attempt of
           Resolves v \<Rightarrow> \<lparr>result = Returned v, calls = attempt + 1, delays = waited\<rparr>
         | Rejects error \<Rightarrow>
             if responseStatus error = Some 429 \<and> attempt < maxRetries - 1
             then retryLoop fn maxRetries baseDelay (attempt + 1)
                    (waited @ [retryDelay error baseDelay attempt])
             else \<lparr>result = Threw error, calls = attempt + 1, delays = waited\<rparr>)
      else \<lparr>result = ReturnedNull, calls = attempt, delays = waited\<rparr>)"
  by pat_completeness auto
termination
  by (relation "measure (\<lambda>(fn, maxRetries, baseDelay, attempt, waited). maxRetries - attempt)") auto

definition retryWithBackoff :: "(nat \<Rightarrow> 'a attempt) \<Rightarrow> nat \<Rightarrow> nat \<Rightarrow> 'a retryRun" where
  "retryWithBackoff fn maxRetries baseDelay = retryLoop fn maxRetries baseDelay 0 []"

text \<open>The two parameter defaults: \<^verbatim>\<open>maxRetries = 3\<close>, \<^verbatim>\<open>baseDelay = 1000\<close>.\<close>

definition retryWithBackoffDefault :: "(nat \<Rightarrow> 'a attempt) \<Rightarrow> 'a retryRun" where
  "retryWithBackoffDefault fn = retryWithBackoff fn 3 1000"

text \<open>
  The start of the open-interest block: the current open interest is fetched through
  \<^verbatim>\<open>retryWithBackoff(fn, 2, 500)\<close> inside a \<^verbatim>\<open>try\<close>. \<open>NullResult\<close> is the branch
  \<^verbatim>\<open>if (!currentOIResponse)\<close>, \<open>Caught\<close> the \<^verbatim>\<open>catch\<close>; a response object is truthy.
\<close>

datatype 'a oiFetch = Fetched 'a | NullResult | Caught httpError

definition currentOIRun :: "(nat \<Rightarrow> 'a attempt) \<Rightarrow> 'a retryRun" where
  "currentOIRun fn = retryWithBackoff fn 2 500"

definition currentOIResponse :: "(nat \<Rightarrow> 'a attempt) \<Rightarrow> 'a oiFetch" where
  "currentOIResponse fn =
     (case result (currentOIRun fn) of
        Returned v \<Rightarrow> Fetched v
      | ReturnedNull \<Rightarrow> NullResult
      | Threw error \<Rightarrow> Caught error)"

text \<open>
  What comes back over the wire for one request: a response with its status, its
  \<^verbatim>\<open>retry-after\<close> header and its body, or no response at all (a timeout, a network
  failure). \<^verbatim>\<open>axios.get\<close> resolves with the response when \<^verbatim>\<open>validateStatus\<close> accepts
  its status, and rejects with an error that carries the response otherwise; without
  a response it rejects with an error that carries none.
\<close>

datatype 'a reply = Reply nat "jsnum option" 'a | NoReply

definition axiosGet :: "(nat \<Rightarrow> bool) \<Rightarrow> 'a reply \<Rightarrow> (nat \<times> 'a) attempt" where
  "axiosGet validateStatus r =
     (case r of
        Reply status header body \<Rightarrow>
          if validateStatus status then Resolves (status, body)
          else Rejects \<lparr>responseStatus = Some status, retryAfter = header\<rparr>
      | NoReply \<Rightarrow> Rejects \<lparr>responseStatus = None, retryAfter = None\<rparr>)"

text \<open>
  The fetch of the open-interest history, once per endpoint of the list:
  \<^verbatim>\<open>retryWithBackoff(async () => axios.get(url, {..., validateStatus: (status) => status < 500}))\<close>
  with the default \<^verbatim>\<open>maxRetries\<close> and \<^verbatim>\<open>baseDelay\<close>. \<open>wire i\<close> is what comes back for the
  request of iteration \<open>i\<close>; the value returned is the response, of which the status and
  the body are kept.
\<close>

definition oiHistoryRun :: "(nat \<Rightarrow> 'a reply) \<Rightarrow> (nat \<times> 'a) retryRun" where
  "oiHistoryRun wire =
     retryWithBackoffDefault (\<lambda>attempt. axiosGet (\<lambda>status. status < 500) (wire attempt))"

section \<open>Instrument universe\<close>

text \<open>
  An entry of \<^verbatim>\<open>exchangeInfo.symbols\<close> and a 24h ticker. \<open>lastPrice\<close> and
  \<open>quoteVolume\<close> hold what \<^verbatim>\<open>parseFloat\<close> returns on the ticker's strings.
\<close>

record symbolInfo =
  s_symbol :: string
  status :: string
  contractType :: string

record ticker =
  t_symbol :: string
  lastPrice :: jsnum
  t_volume :: jsnum
  quoteVolume :: jsnum

definition endsWith :: "string \<Rightarrow> string \<Rightarrow> bool" where
  "endsWith s suffix =
     (length suffix \<le> length s \<and> drop (length s - length suffix) s = suffix)"

definition activeSymbols :: "symbolInfo list \<Rightarrow> string set" where
  "activeSymbols symbols =
     set (map s_symbol
       (filter (\<lambda>symbol. status symbol = ''TRADING''
                  \<and> contractType symbol = ''PERPETUAL''
                  \<and> endsWith (s_symbol symbol) ''USDT'') symbols))"

text \<open>
  \<^verbatim>\<open>Array.prototype.sort(cmp)\<close>. The sort is stable, and with a comparator that orders
  the elements consistently its result is the stable sorted arrangement: an element
  moves behind a later one only when the comparator is positive on the pair. This is
  insertion from the right; \<open>cmp a b\<close> is the number the comparator returns.
\<close>

fun insertBy :: "('a \<Rightarrow> 'a \<Rightarrow> jsnum) \<Rightarrow> 'a \<Rightarrow> 'a list \<Rightarrow> 'a list" where
  "insertBy cmp x [] = [x]"
| "insertBy cmp x (y # ys) =
     (if jgt (cmp x y) (Fin 0) then y # insertBy cmp x ys else x # y # ys)"

definition sortBy :: "('a \<Rightarrow> 'a \<Rightarrow> jsnum) \<Rightarrow> 'a list \<Rightarrow> 'a list" where
  "sortBy cmp xs = foldr (insertBy cmp) xs []"

definition tickerFilter :: "string set \<Rightarrow> ticker \<Rightarrow> bool" where
  "tickerFilter active t =
     (let isActive = t_symbol t \<in> active;
          hasVolume = jgt (quoteVolume t) (Fin 0);
          hasPrice = jgt (lastPrice t) (Fin 0);
          isValidPrice = \<not> isNaN (lastPrice t)
      in isActive \<and> hasVolume \<and> hasPrice \<and> isValidPrice)"

definition usdtPairs :: "symbolInfo list \<Rightarrow> ticker list \<Rightarrow> ticker list" where
  "usdtPairs symbols tickers =
     take 100
       (sortBy (\<lambda>a b. jsub (quoteVolume b) (quoteVolume a))
          (filter (tickerFilter (activeSymbols symbols)) tickers))"

section \<open>Per-symbol records\<close>

record cryptoData =
  symbol :: string
  currentPrice :: jsnum
  dailyReturn :: jsnum
  weeklyReturn :: jsnum
  monthlyReturn :: jsnum
  volume :: jsnum
  vwap7d :: jsnum
  vwapDistance7d :: jsnum
  vwap30d :: jsnum
  vwapDistance30d :: jsnum
  vwap90d :: jsnum
  vwapDistance90d :: jsnum
  vwap365d :: jsnum
  vwapDistance365d :: jsnum
  ema2004h :: jsnum
  ema200Distance4h :: jsnum
  ema2001d :: jsnum
  ema200Distance1d :: jsnum
  zScore :: "jsnum option"
  oiChange24h :: "jsnum option"
  oiChange7d :: "jsnum option"

text \<open>
  What the pipeline reads from the exchange. \<open>klinesApi symbol interval i\<close> is what the
  \<open>i\<close>-th request for the candles of \<open>symbol\<close> at \<open>interval\<close> does; a response carries
  its \<^verbatim>\<open>data\<close>, \<open>None\<close> when the field is missing. The open-interest block only
  assigns \<^verbatim>\<open>oiChange24h\<close> and \<^verbatim>\<open>oiChange7d\<close> and catches every error of its own, so it
  enters through the two values it leaves there.
\<close>

record upstream =
  exchangeInfoApi :: "symbolInfo list attempt"
  tickerApi :: "ticker list attempt"
  klinesApi :: "string \<Rightarrow> string \<Rightarrow> nat \<Rightarrow> kline list option attempt"
  openInterestChanges :: "string \<Rightarrow> jsnum option \<times> jsnum option"

text \<open>An entry of \<^verbatim>\<open>Promise.allSettled\<close> over a call of \<^verbatim>\<open>retryWithBackoff\<close>.\<close>

datatype 'a settled = Fulfilled "'a option" | Rejected httpError

definition settle :: "'a retryRun \<Rightarrow> 'a settled" where
  "settle run =
     (case result run of
        Returned v \<Rightarrow> Fulfilled (Some v)
      | ReturnedNull \<Rightarrow> Fulfilled None
      | Threw error \<Rightarrow> Rejected error)"

text \<open>
  \<^verbatim>\<open>status === 'fulfilled' && value\<close> gives \<^verbatim>\<open>value.data || []\<close>; \<open>None\<close> is the other
  branch.
\<close>

definition klinesOf :: "kline list option settled \<Rightarrow> kline list option" where
  "klinesOf response =
     (case response of
        Fulfilled (Some d) \<Rightarrow> Some (case d of Some rows \<Rightarrow> rows | None \<Rightarrow> [])
      | Fulfilled None \<Rightarrow> None
      | Rejected error \<Rightarrow> None)"

definition hasValidClose :: "kline list \<Rightarrow> bool" where
  "hasValidClose klines =
     list_ex (\<lambda>kline. jgt (k_close kline) (Fin 0) \<and> \<not> isNaN (k_close kline)) klines"

text \<open>
  The \<^verbatim>\<open>try\<close> block around \<^verbatim>\<open>calculateEMA(klines, 200)\<close>: the EMA and the price its
  distance is measured from (the last close of the series when that is positive).
\<close>

definition emaWithPrice :: "jsnum \<Rightarrow> kline list \<Rightarrow> jsnum \<times> jsnum" where
  "emaWithPrice price0 klines =
     (case calculateEMA price0 klines 200 of
        Inr ema \<Rightarrow>
          (let lastClose = k_close (klines ! (length klines - 1))
           in (ema, if \<not> isNaN lastClose \<and> jgt lastClose (Fin 0) then lastClose
                    else price0))
      | Inl err \<Rightarrow> (price0, price0))"

definition emaDistance :: "jsnum \<Rightarrow> jsnum \<Rightarrow> jsnum" where
  "emaDistance price ema =
     (if jgt ema (Fin 0) then jmul (jdiv (jsub price ema) ema) (Fin 100) else Fin 0)"

text \<open>The validity gate at the end of the per-symbol task.\<close>

definition hasMinVolume :: "jsnum \<Rightarrow> bool" where
  "hasMinVolume v = jge v (Fin 10000)"

definition yesterdayClose :: "kline list \<Rightarrow> jsnum option" where
  "yesterdayClose klines =
     (if length klines \<ge> 2 then Some (k_close (klines ! (length klines - 2))) else None)"

definition hasRecentData :: "kline list \<Rightarrow> bool" where
  "hasRecentData klines =
     (case yesterdayClose klines of
        None \<Rightarrow> False
      | Some y \<Rightarrow> jgt y (Fin 0) \<and> \<not> isNaN y)"

text \<open>
  The body of the per-symbol task once both candle series are there: the indicators,
  the gate and the record. \<open>None\<close> is \<^verbatim>\<open>return null\<close>.
\<close>

definition buildRecord ::
  "string \<Rightarrow> jsnum \<Rightarrow> jsnum \<Rightarrow> kline list \<Rightarrow> kline list
     \<Rightarrow> jsnum option \<times> jsnum option \<Rightarrow> cryptoData option" where
  "buildRecord symb price vol klines klines4h oi =
     (if klines = [] then None
      else if \<not> hasValidClose klines then None
      else
        let hasValidKlines4h = (klines4h \<noteq> [] \<and> hasValidClose klines4h);
            dr = calcDailyReturn price klines;
            v7 = calculateVWAP price klines 7;
            v30 = calculateVWAP price klines 30;
            v90 = calculateVWAP price klines 90;
            v365 = calculateVWAP price klines 365;
            (e4h, priceFor4hDistance) =
              (if hasValidKlines4h \<and> length klines4h \<ge> 200
               then emaWithPrice price klines4h else (price, price));
            (e1d, priceFor1dDistance) = emaWithPrice price klines
        in if \<not> hasMinVolume vol \<or> \<not> hasRecentData klines then None
           else Some
             \<lparr>symbol = symb,
              currentPrice = price,
              dailyReturn = dr,
              weeklyReturn = calcWeeklyReturn price klines,
              monthlyReturn = calcMonthlyReturn price klines,
              volume = vol,
              vwap7d = vwap v7,
              vwapDistance7d = distance v7,
              vwap30d = vwap v30,
              vwapDistance30d = distance v30,
              vwap90d = vwap v90,
              vwapDistance90d = distance v90,
              vwap365d = vwap v365,
              vwapDistance365d = distance v365,
              ema2004h = e4h,
              ema200Distance4h = emaDistance priceFor4hDistance e4h,
              ema2001d = e1d,
              ema200Distance1d = emaDistance priceFor1dDistance e1d,
              zScore = calcZScore price dr klines,
              oiChange24h = fst oi,
              oiChange7d = snd oi\<rparr>)"

text \<open>
  The price check at the head of the per-symbol task:
  \<^verbatim>\<open>!currentPrice || currentPrice <= 0 || isNaN(currentPrice)\<close> returns \<^verbatim>\<open>null\<close>.
\<close>

definition invalidPrice :: "jsnum \<Rightarrow> bool" where
  "invalidPrice price = (\<not> truthy price \<or> jle price (Fin 0) \<or> isNaN price)"

text \<open>The candles of one symbol at one interval, as the task gets them.\<close>

definition fetchKlines :: "upstream \<Rightarrow> string \<Rightarrow> string \<Rightarrow> kline list option" where
  "fetchKlines up symb interval =
     klinesOf (settle (retryWithBackoffDefault (klinesApi up symb interval)))"

text \<open>The per-symbol task of a batch (the \<^verbatim>\<open>async (ticker) => ...\<close> callback).\<close>

definition processTicker :: "upstream \<Rightarrow> ticker \<Rightarrow> cryptoData option" where
  "processTicker up t =
     (let symb = t_symbol t;
          price = lastPrice t;
          vol = quoteVolume t
      in if invalidPrice price then None
         else
           case fetchKlines up symb ''1d'' of
             None \<Rightarrow> None
           | Some klines \<Rightarrow>
               let klines4h = (case fetchKlines up symb ''4h'' of
                                 Some rows \<Rightarrow> rows | None \<Rightarrow> [])
               in buildRecord symb price vol klines klines4h (openInterestChanges up symb))"

section \<open>Pipeline and cache\<close>

definition BATCH_SIZE :: nat where
  "BATCH_SIZE = 25"

text \<open>
  The loop \<^verbatim>\<open>for (let i = 0; i < usdtPairs.length; i += BATCH_SIZE)\<close>.
  \<^verbatim>\<open>Promise.allSettled\<close> keeps the order of the batch, whatever the order in which its
  tasks finish, and the non-null results are pushed onto \<^verbatim>\<open>cryptoDataResults\<close>.
\<close>

function processBatches ::
  "upstream \<Rightarrow> ticker list \<Rightarrow> nat \<Rightarrow> cryptoData list \<Rightarrow> cryptoData list" where
  "processBatches up pairs i cryptoDataResults =
     (if i < length pairs
      then
        let batch = take BATCH_SIZE (drop i pairs);
            batchResults = map (processTicker up) batch;
            successfulResults = map the (filter (\<lambda>r. r \<noteq> None) batchResults)
        in processBatches up pairs (i + BATCH_SIZE) (cryptoDataResults @ successfulResults)
      else cryptoDataResults)"
  by pat_completeness auto
termination
  by (relation "measure (\<lambda>(up, pairs, i, cryptoDataResults). length pairs - i)")
     (auto simp: BATCH_SIZE_def)

datatype response = Ok200 "cryptoData list" | Err429 | Err500

definition errorResponse :: "httpError \<Rightarrow> response" where
  "errorResponse error = (if responseStatus error = Some 429 then Err429 else Err500)"

text \<open>The handler after a cache miss, up to the response it is about to send.\<close>

definition pipeline :: "upstream \<Rightarrow> response" where
  "pipeline up =
     (case exchangeInfoApi up of
        Rejects error \<Rightarrow> errorResponse error
      | Resolves symbols \<Rightarrow>
          (case tickerApi up of
             Rejects error \<Rightarrow> errorResponse error
           | Resolves tickers \<Rightarrow>
               let pairs = usdtPairs symbols tickers;
                   cryptoDataResults = processBatches up pairs 0 [];
                   sorted = sortBy (\<lambda>a b. jsub (volume b) (volume a)) cryptoDataResults
               in if sorted = [] then Err500 else Ok200 sorted))"

record cacheEntry =
  data :: "cryptoData list"
  timestamp :: int

type_synonym cache = "string \<rightharpoonup> cacheEntry"

definition cacheKey :: string where
  "cacheKey = ''crypto-data''"

definition CACHE_TTL :: int where
  "CACHE_TTL = 2 * 60 * 1000"

text \<open>The cache check at the head of the handler, at time \<open>now\<close> (milliseconds).\<close>

definition cacheLookup :: "cache \<Rightarrow> int \<Rightarrow> cryptoData list option" where
  "cacheLookup c now =
     (case c cacheKey of
        Some cached \<Rightarrow> if now - timestamp cached < CACHE_TTL then Some (data cached) else None
      | None \<Rightarrow> None)"

text \<open>
  A whole request that nothing interleaves with: \<open>now\<close> is \<^verbatim>\<open>Date.now()\<close> at the cache
  check, \<open>finished\<close> is \<^verbatim>\<open>Date.now()\<close> at \<^verbatim>\<open>cache.set\<close>.
\<close>

definition handler :: "upstream \<Rightarrow> int \<Rightarrow> int \<Rightarrow> cache \<Rightarrow> response \<times> cache" where
  "handler up now finished c =
     (case cacheLookup c now of
        Some d \<Rightarrow> (Ok200 d, c)
      | None \<Rightarrow>
          (case pipeline up of
             Ok200 d \<Rightarrow> (Ok200 d, c(cacheKey \<mapsto> \<lparr>data = d, timestamp = finished\<rparr>))
           | Err429 \<Rightarrow> (Err429, c)
           | Err500 \<Rightarrow> (Err500, c)))"

text \<open>
  Requests overlap: the handler is asynchronous, and between its cache check and its
  \<^verbatim>\<open>cache.set\<close> it awaits the exchange, so other requests run in between. The two
  synchronous ends of a request are the events of the server. \<open>Arrive now\<close> is the
  cache check of a new request: it answers from the cache or starts a pipeline
  execution. \<open>Complete up finished\<close> is the end of a pipeline execution that read \<open>up\<close>
  from the exchange: it stores and sends its result. \<open>pipelineRuns\<close> counts the
  executions started and \<open>responses\<close> lists the responses in the order sent.
\<close>

record server =
  store :: cache
  pipelineRuns :: nat
  responses :: "response list"

datatype event = Arrive int | Complete upstream int

fun step :: "server \<Rightarrow> event \<Rightarrow> server" where
  "step s (Arrive now) =
     (case cacheLookup (store s) now of
        Some d \<Rightarrow> s\<lparr>responses := responses s @ [Ok200 d]\<rparr>
      | None \<Rightarrow> s\<lparr>pipelineRuns := pipelineRuns s + 1\<rparr>)"
| "step s (Complete up finished) =
     (case pipeline up of
        Ok200 d \<Rightarrow>
          s\<lparr>store := (store s)(cacheKey \<mapsto> \<lparr>data = d, timestamp = finished\<rparr>),
            responses := responses s @ [Ok200 d]\<rparr>
      | Err429 \<Rightarrow> s\<lparr>responses := responses s @ [Err429]\<rparr>
      | Err500 \<Rightarrow> s\<lparr>responses := responses s @ [Err500]\<rparr>)"

definition runEvents :: "server \<Rightarrow> event list \<Rightarrow> server" where
  "runEvents s events = foldl step s events"

section \<open>Sample data\<close>

text \<open>Concrete inputs for the instances and counterexamples below.\<close>

definition flatCandle :: "real \<Rightarrow> kline" where
  "flatCandle c =
     \<lparr>k_openTime = 0, k_open = Fin c, k_high = Fin c, k_low = Fin c, k_close = Fin c,
      k_volume = Fin 1, k_closeTime = 0\<rparr>"

definition rateLimited :: httpError where
  "rateLimited = \<lparr>responseStatus = Some 429, retryAfter = None\<rparr>"

definition twoRateLimits :: "nat \<Rightarrow> unit attempt" where
  "twoRateLimits i = (if i < 2 then Rejects rateLimited else Resolves ())"


definition brokenCandle :: kline where
  "brokenCandle = (flatCandle 1)\<lparr>k_close := NaN\<rparr>"

section \<open>The quantities of the specification\<close>

text \<open>
  The sum of \<open>f\<close> over a series, and the candles the exchange sends when nothing is
  malformed: finite positive prices and a finite volume that is not negative.
\<close>

definition sumOver :: "('a \<Rightarrow> jsnum) \<Rightarrow> 'a list \<Rightarrow> jsnum" where
  "sumOver f xs = foldr (\<lambda>x s. jadd (f x) s) xs (Fin 0)"

fun finitePositive :: "jsnum \<Rightarrow> bool" where
  "finitePositive (Fin a) = (a > 0)"
| "finitePositive _ = False"



text \<open>One step of the moving average: \<open>ema' = close * k + ema * (1 - k)\<close>.\<close>

definition emaStep :: "jsnum \<Rightarrow> jsnum \<Rightarrow> jsnum \<Rightarrow> jsnum" where
  "emaStep k ema c = jadd (jmul c k) (jmul ema (jsub (Fin 1) k))"

text \<open>
  The day-over-day returns of a window of closes, in doubles: one percentage change
  for every pair of neighbouring closes that are both positive.
\<close>

fun validReturns :: "jsnum list \<Rightarrow> jsnum list" where
  "validReturns (prevClose # currClose # rest) =
     (if jgt prevClose (Fin 0) \<and> jgt currClose (Fin 0) \<and> \<not> isNaN prevClose \<and> \<not> isNaN currClose
      then [pctChangeF currClose prevClose] else [])
     @ validReturns (currClose # rest)"
| "validReturns closes = []"


text \<open>
  Thirty-one candles whose closes are each two thirds of the one before, from \<open>3 ^ 30\<close>
  down to \<open>2 ^ 30\<close>: every return is \<open>-100 / 3\<close> before rounding.
\<close>

definition geometric :: "kline list" where
  "geometric = map flatCandle
     [205891132094649, 137260754729766, 91507169819844, 61004779879896, 40669853253264,
      27113235502176, 18075490334784, 12050326889856, 8033551259904, 5355700839936,
      3570467226624, 2380311484416, 1586874322944, 1057916215296, 705277476864,
      470184984576, 313456656384, 208971104256, 139314069504, 92876046336, 61917364224,
      41278242816, 27518828544, 18345885696, 12230590464, 8153726976, 5435817984,
      3623878656, 2415919104, 1610612736, 1073741824]"

text \<open>Exchange metadata and tickers: two trading contracts and a halted one.\<close>

definition btcInfo :: symbolInfo where
  "btcInfo = \<lparr>s_symbol = ''BTCUSDT'', status = ''TRADING'', contractType = ''PERPETUAL''\<rparr>"

definition ethInfo :: symbolInfo where
  "ethInfo = \<lparr>s_symbol = ''ETHUSDT'', status = ''TRADING'', contractType = ''PERPETUAL''\<rparr>"

definition xrpInfo :: symbolInfo where
  "xrpInfo = \<lparr>s_symbol = ''XRPUSDT'', status = ''BREAK'', contractType = ''PERPETUAL''\<rparr>"

definition btcTicker :: ticker where
  "btcTicker =
     \<lparr>t_symbol = ''BTCUSDT'', lastPrice = Fin 100, t_volume = Fin 500, quoteVolume = Fin 50000\<rparr>"

definition ethTicker :: ticker where
  "ethTicker =
     \<lparr>t_symbol = ''ETHUSDT'', lastPrice = Fin 10, t_volume = Fin 6000, quoteVolume = Fin 60000\<rparr>"

definition xrpTicker :: ticker where
  "xrpTicker =
     \<lparr>t_symbol = ''XRPUSDT'', lastPrice = Fin 1, t_volume = Fin 70000, quoteVolume = Fin 70000\<rparr>"

text \<open>
  An exchange that answers every request at once: the metadata above, the given
  tickers, and two daily candles for every symbol. A server that has not run yet.
\<close>

definition sampleUpstream :: "ticker list \<Rightarrow> upstream" where
  "sampleUpstream tickers =
     \<lparr>exchangeInfoApi = Resolves [btcInfo, ethInfo, xrpInfo],
      tickerApi = Resolves tickers,
      klinesApi = (\<lambda>symb interval i. Resolves (Some [flatCandle 90, flatCandle 95])),
      openInterestChanges = (\<lambda>symb. (None, None))\<rparr>"

definition emptyServer :: server where
  "emptyServer = \<lparr>store = Map.empty, pipelineRuns = 0, responses = []\<rparr>"

section \<open>Properties of the rolling returns\<close>

text \<open>
  The daily and the weekly return follow one law: the return over \<open>k\<close> periods needs
  \<open>k + 1\<close> candles and compares with the close \<open>k\<close> places before the last candle.
\<close>

lemma daily_weekly_returns:
  "calcDailyReturn price klines =
     (if length klines \<ge> 1 + 1 then pctChange price (k_close (klines ! (length klines - 1 - 1)))
      else Fin 0)
   \<and> calcWeeklyReturn price klines =
     (if length klines \<ge> 7 + 1 then pctChange price (k_close (klines ! (length klines - 1 - 7)))
      else Fin 0)"
  by (simp add: calcDailyReturn_def calcWeeklyReturn_def numeral_2_eq_2)

text \<open>
  C2. The return over \<open>k\<close> periods is \<open>(currentPrice - c) / c * 100\<close> for the close \<open>c\<close>
  that lies \<open>k\<close> candles before the last one when there are at least \<open>k + 1\<close> candles,
  and \<open>0\<close> otherwise; the monthly return needs 31 candles and looks 30 back. The
  monthly return of the handler departs from this: with exactly 30 candles it is not
  \<open>0\<close> but the change against the first candle, and with 31 candles it compares with
  the second candle (29 places before the last), not the first.
\<close>

theorem monthlyReturn_thirty_candles:
  "calcMonthlyReturn (Fin 110) (map flatCandle (100 # replicate 29 200)) = Fin 10
   \<and> calcMonthlyReturn (Fin 110) (map flatCandle (50 # 100 # replicate 29 200)) = Fin 10"
  by (simp add: calcMonthlyReturn_def pctChange_def jsub_def flatCandle_def)

section \<open>Properties of the retry utility\<close>

declare retryLoop.simps [simp del]

lemma retryLoop_resolves:
  "attempt < maxRetries \<Longrightarrow> fn attempt = Resolves v \<Longrightarrow>
   retryLoop fn maxRetries baseDelay attempt waited =
     \<lparr>result = Returned v, calls = attempt + 1, delays = waited\<rparr>"
  by (subst retryLoop.simps) simp

lemma retryLoop_retry:
  "attempt < maxRetries \<Longrightarrow> fn attempt = Rejects e \<Longrightarrow>
   responseStatus e = Some 429 \<and> attempt < maxRetries - 1 \<Longrightarrow>
   retryLoop fn maxRetries baseDelay attempt waited =
     retryLoop fn maxRetries baseDelay (attempt + 1) (waited @ [retryDelay e baseDelay attempt])"
  by (subst retryLoop.simps) simp

lemma retryLoop_throw:
  "attempt < maxRetries \<Longrightarrow> fn attempt = Rejects e \<Longrightarrow>
   \<not> (responseStatus e = Some 429 \<and> attempt < maxRetries - 1) \<Longrightarrow>
   retryLoop fn maxRetries baseDelay attempt waited =
     \<lparr>result = Threw e, calls = attempt + 1, delays = waited\<rparr>"
  by (subst retryLoop.simps) auto

lemma retryLoop_null:
  "\<not> attempt < maxRetries \<Longrightarrow>
   retryLoop fn maxRetries baseDelay attempt waited =
     \<lparr>result = ReturnedNull, calls = attempt, delays = waited\<rparr>"
  by (subst retryLoop.simps) simp

lemma retryLoop_spec:
  "attempt < maxRetries \<Longrightarrow> length waited = attempt \<Longrightarrow>
   retryLoop fn maxRetries baseDelay attempt waited = r \<Longrightarrow>
   attempt < calls r \<and> calls r \<le> maxRetries
   \<and> length (delays r) + 1 = calls r
   \<and> take attempt (delays r) = waited
   \<and> (\<forall>i. attempt \<le> i \<and> i + 1 < calls r \<longrightarrow>
         (\<exists>e. fn i = Rejects e \<and> responseStatus e = Some 429
              \<and> delays r ! i = retryDelay e baseDelay i))
   \<and> (case fn (calls r - 1) of
         Resolves v \<Rightarrow> result r = Returned v
       | Rejects e \<Rightarrow> result r = Threw e \<and> (responseStatus e \<noteq> Some 429 \<or> calls r = maxRetries))"
proof (induction fn maxRetries baseDelay attempt waited arbitrary: r rule: retryLoop.induct)
  case (1 fn maxRetries baseDelay attempt waited)
  show ?case
  proof (cases "fn attempt")
    case (Resolves v)
    with "1.prems" have "r = \<lparr>result = Returned v, calls = attempt + 1, delays = waited\<rparr>"
      using retryLoop_resolves by metis
    with "1.prems" Resolves show ?thesis by auto
  next
    case (Rejects e)
    show ?thesis
    proof (cases "responseStatus e = Some 429 \<and> attempt < maxRetries - 1")
      case False
      with "1.prems" Rejects
      have "r = \<lparr>result = Threw e, calls = attempt + 1, delays = waited\<rparr>"
        using retryLoop_throw by metis
      with "1.prems" Rejects False show ?thesis by auto
    next
      case True
      let ?w = "waited @ [retryDelay e baseDelay attempt]"
      have lt: "attempt + 1 < maxRetries" using True by arith
      have r: "retryLoop fn maxRetries baseDelay (attempt + 1) ?w = r"
        using "1.prems" Rejects True retryLoop_retry by metis
      have len: "length ?w = attempt + 1" using "1.prems" by simp
      note ih = "1.IH"[OF "1.prems"(1) Rejects True lt len r]
      from ih have tk: "take (attempt + 1) (delays r) = ?w" by simp
      have ln: "attempt < length (delays r)" using ih by arith
      have "delays r ! attempt = take (attempt + 1) (delays r) ! attempt" by simp
      also have "\<dots> = ?w ! attempt" using tk by simp
      also have "\<dots> = retryDelay e baseDelay attempt"
        using "1.prems"(2) by (simp add: nth_append)
      finally have d: "delays r ! attempt = retryDelay e baseDelay attempt" .
      have "take attempt (delays r) = take attempt (take (attempt + 1) (delays r))"
        by (simp add: min_def)
      also have "\<dots> = waited" using tk "1.prems"(2) by simp
      finally have tk': "take attempt (delays r) = waited" .
      have mid: "\<exists>e. fn i = Rejects e \<and> responseStatus e = Some 429
              \<and> delays r ! i = retryDelay e baseDelay i"
        if i: "attempt \<le> i \<and> i + 1 < calls r" for i
      proof (cases "i = attempt")
        case True
        then show ?thesis using Rejects \<open>responseStatus e = Some 429 \<and> attempt < maxRetries - 1\<close> d
          by auto
      next
        case False
        with i have "attempt + 1 \<le> i \<and> i + 1 < calls r" by arith
        with ih show ?thesis by blast
      qed
      from ih have a: "attempt < calls r \<and> calls r \<le> maxRetries \<and> length (delays r) + 1 = calls r"
        by auto
      from ih have b: "case fn (calls r - 1) of
         Resolves v \<Rightarrow> result r = Returned v
       | Rejects e \<Rightarrow> result r = Threw e \<and> (responseStatus e \<noteq> Some 429 \<or> calls r = maxRetries)"
        by blast
      from a tk' mid b show ?thesis by blast
    qed
  qed
qed

lemma retry_zero_returns_null:
  "result (retryWithBackoff fn 0 baseDelay) = ReturnedNull"
  by (simp add: retryWithBackoff_def retryLoop_null)

lemma oiHistory_single_attempt:
  "oiHistoryRun wire =
     \<lparr>result = (case wire 0 of
                  Reply code header body \<Rightarrow>
                    if code < 500 then Returned (code, body)
                    else Threw \<lparr>responseStatus = Some code, retryAfter = header\<rparr>
                | NoReply \<Rightarrow> Threw \<lparr>responseStatus = None, retryAfter = None\<rparr>),
      calls = 1, delays = []\<rparr>"
  by (cases "wire 0")
     (simp_all add: oiHistoryRun_def retryWithBackoffDefault_def retryWithBackoff_def
        retryLoop_resolves retryLoop_throw axiosGet_def)

text \<open>
  C9, as the code has it. A fetch wrapped in \<^verbatim>\<open>retryWithBackoff\<close> with \<open>maxRetries\<close> at
  least one makes between one and \<open>maxRetries\<close> attempts. Every attempt but the last
  was rejected with status 429 and was followed by a wait of the \<^verbatim>\<open>retry-after\<close>
  seconds times 1000 when the header is there, and of \<open>baseDelay * 2 ^ attempt\<close>
  milliseconds otherwise. The last attempt decides: its value is returned, or its
  error is thrown, and an error is thrown either because it is not a 429 or because
  the attempts are used up; so an error other than 429 is never retried. The wrapped
  fetches do not all use the same policy. The candle fetches run with three attempts
  and a base delay of 1000 ms (waits of 1000 and 2000 ms). The fetch of the current
  open interest runs with two attempts and a base delay of 500 ms. The fetch of the
  open-interest history is wrapped with the defaults, but it accepts every status below
  500, so a 429 response resolves the request instead of rejecting it: this fetch always
  makes exactly one attempt and never waits; a response below 500 (a 429 included) is
  returned, and a response from 500 on, or no response, is thrown at once.
\<close>

theorem retry_policy:
  "1 \<le> maxRetries \<Longrightarrow> retryWithBackoff fn maxRetries baseDelay = run \<Longrightarrow>
   1 \<le> calls run \<and> calls run \<le> maxRetries
   \<and> length (delays run) + 1 = calls run
   \<and> (\<forall>i. i + 1 < calls run \<longrightarrow>
         (\<exists>e. fn i = Rejects e \<and> responseStatus e = Some 429
              \<and> delays run ! i = (case retryAfter e of
                                    Some seconds \<Rightarrow> jmul seconds (Fin 1000)
                                  | None \<Rightarrow> Fin (real baseDelay * 2 ^ i))))
   \<and> (case fn (calls run - 1) of
         Resolves v \<Rightarrow> result run = Returned v
       | Rejects e \<Rightarrow> result run = Threw e
                        \<and> (responseStatus e \<noteq> Some 429 \<or> calls run = maxRetries))
   \<and> fetchKlines up symb interval =
       klinesOf (settle (retryWithBackoff (klinesApi up symb interval) 3 1000))
   \<and> currentOIRun oiFn = retryWithBackoff oiFn 2 500
   \<and> calls (oiHistoryRun wire) = 1 \<and> delays (oiHistoryRun wire) = []
   \<and> result (oiHistoryRun wire) =
       (case wire 0 of
          Reply code header body \<Rightarrow>
            if code < 500 then Returned (code, body)
            else Threw \<lparr>responseStatus = Some code, retryAfter = header\<rparr>
        | NoReply \<Rightarrow> Threw \<lparr>responseStatus = None, retryAfter = None\<rparr>)"
proof -
  assume m: "1 \<le> maxRetries" and run: "retryWithBackoff fn maxRetries baseDelay = run"
  have "0 < maxRetries" using m by simp
  moreover have "length ([] :: jsnum list) = 0" by simp
  moreover have "retryLoop fn maxRetries baseDelay 0 [] = run"
    using run by (simp add: retryWithBackoff_def)
  ultimately have s: "0 < calls run \<and> calls run \<le> maxRetries
   \<and> length (delays run) + 1 = calls run
   \<and> take 0 (delays run) = []
   \<and> (\<forall>i. 0 \<le> i \<and> i + 1 < calls run \<longrightarrow>
         (\<exists>e. fn i = Rejects e \<and> responseStatus e = Some 429
              \<and> delays run ! i = retryDelay e baseDelay i))
   \<and> (case fn (calls run - 1) of
         Resolves v \<Rightarrow> result run = Returned v
       | Rejects e \<Rightarrow> result run = Threw e \<and> (responseStatus e \<noteq> Some 429 \<or> calls run = maxRetries))"
    by (rule retryLoop_spec)
  have rd: "retryDelay e baseDelay i = (case retryAfter e of
                                    Some seconds \<Rightarrow> jmul seconds (Fin 1000)
                                  | None \<Rightarrow> Fin (real baseDelay * 2 ^ i))" for e i
    by (simp add: retryDelay_def split: option.splits)
  from s have general: "1 \<le> calls run \<and> calls run \<le> maxRetries
   \<and> length (delays run) + 1 = calls run
   \<and> (\<forall>i. i + 1 < calls run \<longrightarrow>
         (\<exists>e. fn i = Rejects e \<and> responseStatus e = Some 429
              \<and> delays run ! i = (case retryAfter e of
                                    Some seconds \<Rightarrow> jmul seconds (Fin 1000)
                                  | None \<Rightarrow> Fin (real baseDelay * 2 ^ i))))
   \<and> (case fn (calls run - 1) of
         Resolves v \<Rightarrow> result run = Returned v
       | Rejects e \<Rightarrow> result run = Threw e
                        \<and> (responseStatus e \<noteq> Some 429 \<or> calls run = maxRetries))"
    unfolding rd by auto
  have sites: "fetchKlines up symb interval =
       klinesOf (settle (retryWithBackoff (klinesApi up symb interval) 3 1000))
     \<and> currentOIRun oiFn = retryWithBackoff oiFn 2 500"
    by (simp add: fetchKlines_def retryWithBackoffDefault_def currentOIRun_def)
  have hist: "calls (oiHistoryRun wire) = 1 \<and> delays (oiHistoryRun wire) = []
   \<and> result (oiHistoryRun wire) =
       (case wire 0 of
          Reply code header body \<Rightarrow>
            if code < 500 then Returned (code, body)
            else Threw \<lparr>responseStatus = Some code, retryAfter = header\<rparr>
        | NoReply \<Rightarrow> Threw \<lparr>responseStatus = None, retryAfter = None\<rparr>)"
    by (subst (1 2 3) oiHistory_single_attempt) simp
  from general sites hist show ?thesis by blast
qed

lemma retry_default_run:
  "retryWithBackoffDefault twoRateLimits =
     \<lparr>result = Returned (), calls = 3, delays = [Fin 1000, Fin 2000]\<rparr>"
  by (simp add: retryWithBackoffDefault_def retryWithBackoff_def retryLoop.simps
      twoRateLimits_def rateLimited_def retryDelay_def)

text \<open>
  Two rate limits and then an answer, under the defaults: three attempts, waits of 1000
  and 2000 ms. A 429 answer to the request for the open-interest history: one attempt,
  no wait, and the 429 response is what the wrapper returns.
\<close>

theorem retry_policy_witness:
  "(1::nat) \<le> 3 \<and> calls (retryWithBackoff twoRateLimits 3 1000) = 3
   \<and> delays (retryWithBackoff twoRateLimits 3 1000) = [Fin 1000, Fin 2000]
   \<and> result (retryWithBackoff twoRateLimits 3 1000) = Returned ()
   \<and> calls (oiHistoryRun (\<lambda>i. Reply 429 None ())) = 1
   \<and> result (oiHistoryRun (\<lambda>i. Reply 429 None ())) = Returned (429, ())"
  using retry_policy[of 3 twoRateLimits 1000 "retryWithBackoff twoRateLimits 3 1000"
      "sampleUpstream []" "''BTCUSDT''" "''1d''" twoRateLimits "\<lambda>i. Reply 429 None ()"]
    retry_default_run
  by (simp add: retryWithBackoffDefault_def)

text \<open>
  Two wrapped fetches under a persistent rate limit. The fetch of the current open
  interest makes two attempts with one wait of 500 ms, not three attempts with waits of
  one and two seconds. The fetch of the open-interest history gets the 429 as a
  response, makes one attempt and does not retry at all.
\<close>

theorem open_interest_retry_counterexample:
  "calls (currentOIRun (\<lambda>i. Rejects rateLimited :: unit attempt)) = 2
   \<and> delays (currentOIRun (\<lambda>i. Rejects rateLimited :: unit attempt)) = [Fin 500]
   \<and> result (currentOIRun (\<lambda>i. Rejects rateLimited :: unit attempt)) = Threw rateLimited
   \<and> calls (oiHistoryRun (\<lambda>i. Reply 429 None ())) = 1
   \<and> delays (oiHistoryRun (\<lambda>i. Reply 429 None ())) = []
   \<and> result (oiHistoryRun (\<lambda>i. Reply 429 None ())) = Returned (429, ())"
  by (simp add: currentOIRun_def oiHistoryRun_def retryWithBackoffDefault_def axiosGet_def
      retryWithBackoff_def retryLoop.simps rateLimited_def retryDelay_def)

text \<open>
  C10. With \<open>maxRetries\<close> at least one, \<^verbatim>\<open>retryWithBackoff\<close> returns the value of one
  of the first \<open>maxRetries\<close> invocations or throws the error of one of them; it never
  reaches its trailing \<^verbatim>\<open>return null\<close>. So a settled call never carries \<^verbatim>\<open>null\<close>, and
  the null check on the current open interest never fires.
\<close>

theorem retry_never_null:
  "1 \<le> maxRetries \<Longrightarrow>
   ((\<exists>i v. i < maxRetries \<and> fn i = Resolves v
        \<and> result (retryWithBackoff fn maxRetries baseDelay) = Returned v)
    \<or> (\<exists>i e. i < maxRetries \<and> fn i = Rejects e
        \<and> result (retryWithBackoff fn maxRetries baseDelay) = Threw e))
   \<and> result (retryWithBackoff fn maxRetries baseDelay) \<noteq> ReturnedNull
   \<and> settle (retryWithBackoff fn maxRetries baseDelay) \<noteq> Fulfilled None
   \<and> currentOIResponse fn \<noteq> NullResult"
proof -
  assume m: "1 \<le> maxRetries"
  have gen: "(\<exists>i v. i < n \<and> fn i = Resolves v
        \<and> result (retryWithBackoff fn n b) = Returned v)
    \<or> (\<exists>i e. i < n \<and> fn i = Rejects e
        \<and> result (retryWithBackoff fn n b) = Threw e)" if n: "1 \<le> n" for n b
  proof -
    obtain run where run: "retryWithBackoff fn n b = run" by simp
    have "0 < n" using n by simp
    moreover have "length ([] :: jsnum list) = 0" by simp
    moreover have "retryLoop fn n b 0 [] = run"
      using run by (simp add: retryWithBackoff_def)
    ultimately have s: "0 < calls run \<and> calls run \<le> n
     \<and> length (delays run) + 1 = calls run
     \<and> take 0 (delays run) = []
     \<and> (\<forall>i. 0 \<le> i \<and> i + 1 < calls run \<longrightarrow>
         (\<exists>e. fn i = Rejects e \<and> responseStatus e = Some 429
              \<and> delays run ! i = retryDelay e b i))
     \<and> (case fn (calls run - 1) of
         Resolves v \<Rightarrow> result run = Returned v
       | Rejects e \<Rightarrow> result run = Threw e \<and> (responseStatus e \<noteq> Some 429 \<or> calls run = n))"
      by (rule retryLoop_spec)
    then have lt: "calls run - 1 < n" by arith
    show ?thesis
    proof (cases "fn (calls run - 1)")
      case (Resolves v)
      with s lt run show ?thesis by auto
    next
      case (Rejects e)
      with s lt run show ?thesis by auto
    qed
  qed
  have nn: "result (retryWithBackoff fn n b) \<noteq> ReturnedNull" if n: "1 \<le> n" for n b
    using gen[OF n, of b] by auto
  have "currentOIResponse fn \<noteq> NullResult"
    using nn[of 2 500] by (auto simp: currentOIResponse_def currentOIRun_def split: retryResult.splits)
  moreover have "settle (retryWithBackoff fn maxRetries baseDelay) \<noteq> Fulfilled None"
    using nn[OF m, of baseDelay] by (auto simp: settle_def split: retryResult.splits)
  ultimately show ?thesis using gen[OF m] nn[OF m] by blast
qed

theorem retry_never_null_witness:
  "(1::nat) \<le> 2 \<and> result (retryWithBackoff (\<lambda>i. Rejects rateLimited :: unit attempt) 2 500) \<noteq> ReturnedNull"
  using retry_never_null[of 2 "\<lambda>i. Rejects rateLimited :: unit attempt" 500]
  by simp

section \<open>Properties of the numbers\<close>


lemma jadd_zero_right [simp]: "jadd a (Fin 0) = a"
  by (cases a) simp_all

lemma jadd_zero_left [simp]: "jadd (Fin 0) a = a"
  by (cases a) simp_all

lemma finitePositive_iff: "finitePositive x \<longleftrightarrow> (\<exists>a. x = Fin a \<and> a > 0)"
  by (cases x) auto


lemma finitePositive_guard:
  "finitePositive x \<Longrightarrow> \<not> (isNaN x \<or> jle x (Fin 0) \<or> \<not> isFinite x)"
  by (cases x) (simp_all add: jle_def)

subsection \<open>Rounding to 53 bits\<close>

text \<open>
  Rounding keeps the sign, and it keeps an integer below \<open>2 ^ 53\<close> as it is.
\<close>

lemma roundEven_of_int: "roundEven (of_int k) = k"
  by (simp add: roundEven_def)

lemma roundEven_ge_floor: "\<lfloor>q\<rfloor> \<le> roundEven q"
  by (simp add: roundEven_def Let_def)

lemma roundEven_le_ceiling: "roundEven q \<le> \<lceil>q\<rceil>"
proof (cases "q = of_int \<lfloor>q\<rfloor>")
  case True
  then have "roundEven q = \<lfloor>q\<rfloor>" by (simp add: roundEven_def Let_def)
  then show ?thesis by simp
next
  case False
  then have "\<lceil>q\<rceil> = \<lfloor>q\<rfloor> + 1" by (simp add: ceiling_altdef)
  then show ?thesis by (simp add: roundEven_def Let_def)
qed

lemma round53_zero: "round53 0 = 0"
  by (simp add: round53_def)

lemma scaled_ge_one:
  assumes "0 < x"
  shows "1 \<le> x / 2 powr of_int (\<lfloor>log 2 x\<rfloor> - 52)"
proof -
  have "of_int (\<lfloor>log 2 x\<rfloor> - 52) \<le> log 2 x" by linarith
  then have "2 powr of_int (\<lfloor>log 2 x\<rfloor> - 52) \<le> 2 powr log 2 x" by simp
  also have "\<dots> = x" using assms by simp
  finally show ?thesis by simp
qed

lemma round53_pos:
  assumes "0 < x"
  shows "0 < round53 x"
proof -
  let ?e = "\<lfloor>log 2 \<bar>x\<bar>\<rfloor> - 52"
  let ?q = "x / 2 powr of_int ?e"
  have "1 \<le> ?q" using scaled_ge_one[OF assms] assms by simp
  then have "1 \<le> \<lfloor>?q\<rfloor>" by simp
  with roundEven_ge_floor[of ?q] have "1 \<le> roundEven ?q" by linarith
  then have "0 < (of_int (roundEven ?q) :: real)" by simp
  moreover have "0 < (2::real) powr of_int ?e" by simp
  ultimately have "0 < real_of_int (roundEven ?q) * 2 powr of_int ?e" by (rule mult_pos_pos)
  then show ?thesis using assms by (simp add: round53_def Let_def)
qed

lemma round53_neg:
  assumes "x < 0"
  shows "round53 x < 0"
proof -
  let ?e = "\<lfloor>log 2 \<bar>x\<bar>\<rfloor> - 52"
  let ?q = "x / 2 powr of_int ?e"
  have "1 \<le> (- x) / 2 powr of_int (\<lfloor>log 2 (- x)\<rfloor> - 52)"
    using scaled_ge_one[of "- x"] assms by simp
  then have "?q \<le> - 1" using assms by simp
  then have "\<lceil>?q\<rceil> \<le> - 1" by (simp add: ceiling_le_iff)
  with roundEven_le_ceiling[of ?q] have "roundEven ?q \<le> - 1" by linarith
  then have "(of_int (roundEven ?q) :: real) < 0" by simp
  moreover have "0 < (2::real) powr of_int ?e" by simp
  ultimately have "real_of_int (roundEven ?q) * 2 powr of_int ?e < 0" by (rule mult_neg_pos)
  then show ?thesis using assms by (simp add: round53_def Let_def)
qed

lemma round53_pos_iff: "0 < round53 x \<longleftrightarrow> 0 < x"
  using round53_pos[of x] round53_neg[of x] round53_zero
  by (cases "x = 0"; cases "0 < x") (auto simp: not_less less_le)

lemma round53_neg_iff: "round53 x < 0 \<longleftrightarrow> x < 0"
  using round53_pos[of x] round53_neg[of x] round53_zero
  by (cases "x = 0"; cases "0 < x") (auto simp: not_less less_le)

lemma round53_zero_iff: "round53 x = 0 \<longleftrightarrow> x = 0"
  using round53_pos[of x] round53_neg[of x] round53_zero
  by (cases "x = 0"; cases "0 < x") (auto simp: not_less less_le)

lemma round53_of_int:
  assumes "\<bar>m\<bar> < 2 ^ 53"
  shows "round53 (of_int m) = of_int m"
proof (cases "m = 0")
  case True
  then show ?thesis by (simp add: round53_zero)
next
  case False
  let ?x = "of_int m :: real"
  let ?l = "\<lfloor>log 2 \<bar>?x\<bar>\<rfloor>"
  have x1: "1 \<le> \<bar>?x\<bar>" using False by (simp flip: of_int_abs)
  have x2: "\<bar>?x\<bar> < 2 ^ 53" using assms by (metis of_int_abs of_int_less_numeral_power_cancel_iff)
  have "0 \<le> log 2 \<bar>?x\<bar>" using x1 by simp
  then have l0: "0 \<le> ?l" by simp
  have "\<bar>?x\<bar> < 2 powr 53" using x2 by simp
  then have "log 2 \<bar>?x\<bar> < 53" using x1 by (simp add: log_less_iff)
  then have l1: "?l \<le> 52" by linarith
  define n where "n = nat (52 - ?l)"
  have e: "?l - 52 = - int n" using l1 by (simp add: n_def)
  have p: "(2::real) powr of_int (?l - 52) = 1 / 2 ^ n"
    by (simp add: e powr_minus powr_realpow inverse_eq_divide)
  have q: "?x / 2 powr of_int (?l - 52) = of_int (m * 2 ^ n)"
    by (subst p) simp
  have "round53 ?x = of_int (roundEven (?x / 2 powr of_int (?l - 52))) * 2 powr of_int (?l - 52)"
    using False by (simp add: round53_def Let_def)
  also have "\<dots> = of_int (roundEven (of_int (m * 2 ^ n))) * (1 / 2 ^ n)"
    by (simp only: p) simp
  also have "\<dots> = of_int (m * 2 ^ n) * (1 / 2 ^ n)"
    by (simp only: roundEven_of_int)
  also have "\<dots> = of_int m" by simp
  finally show ?thesis .
qed

lemma round53_numeral [simp]:
  "numeral n < (2::int) ^ 53 \<Longrightarrow> round53 (numeral n) = numeral n"
  using round53_of_int[of "numeral n"] by simp

lemma round53_neg_numeral [simp]:
  "numeral n < (2::int) ^ 53 \<Longrightarrow> round53 (- numeral n) = - numeral n"
  using round53_of_int[of "- numeral n"] by simp

lemma round53_one [simp]: "round53 1 = 1"
  using round53_of_int[of 1] by simp

text \<open>The rounding of a value whose binary exponent is known.\<close>

lemma round53_down:
  assumes lo: "2 ^ 52 \<le> \<bar>x\<bar> * 2 ^ k" and hi: "\<bar>x\<bar> * 2 ^ k < 2 ^ 53"
  shows "round53 x = of_int (roundEven (x * 2 ^ k)) / 2 ^ k"
proof -
  have x0: "x \<noteq> 0" using lo by auto
  then have ax: "0 < \<bar>x\<bar>" by simp
  have "log 2 (\<bar>x\<bar> * 2 ^ k) = log 2 \<bar>x\<bar> + real k"
    using ax by (simp add: log_mult log_nat_power)
  moreover have "52 \<le> log 2 (\<bar>x\<bar> * 2 ^ k)"
  proof -
    have "(2::real) powr 52 \<le> \<bar>x\<bar> * 2 ^ k" using lo by simp
    then show ?thesis using ax by (simp add: le_log_iff)
  qed
  moreover have "log 2 (\<bar>x\<bar> * 2 ^ k) < 53"
  proof -
    have "\<bar>x\<bar> * 2 ^ k < (2::real) powr 53" using hi by simp
    then show ?thesis using ax by (simp add: log_less_iff)
  qed
  ultimately have "52 - real k \<le> log 2 \<bar>x\<bar>" "log 2 \<bar>x\<bar> < 53 - real k" by linarith+
  then have "\<lfloor>log 2 \<bar>x\<bar>\<rfloor> = 52 - int k" by linarith
  then have e: "\<lfloor>log 2 \<bar>x\<bar>\<rfloor> - 52 = - int k" by simp
  have p: "(2::real) powr of_int (\<lfloor>log 2 \<bar>x\<bar>\<rfloor> - 52) = 1 / 2 ^ k"
    by (simp add: e powr_minus powr_realpow inverse_eq_divide)
  have "round53 x = of_int (roundEven (x / 2 powr of_int (\<lfloor>log 2 \<bar>x\<bar>\<rfloor> - 52)))
                      * 2 powr of_int (\<lfloor>log 2 \<bar>x\<bar>\<rfloor> - 52)"
    using x0 by (simp add: round53_def Let_def)
  also have "\<dots> = of_int (roundEven (x / (1 / 2 ^ k))) * (1 / 2 ^ k)"
    by (simp only: p)
  also have "\<dots> = of_int (roundEven (x * 2 ^ k)) / 2 ^ k" by simp
  finally show ?thesis .
qed

section \<open>Properties of the VWAP\<close>

lemma sumOver_Nil [simp]: "sumOver f [] = Fin 0"
  by (simp add: sumOver_def)

lemma sumOver_Cons [simp]: "sumOver f (x # xs) = jadd (f x) (sumOver f xs)"
  by (simp add: sumOver_def)








section \<open>Properties of the EMA\<close>

declare emaLoop.simps [simp del]

lemma emaLoop_foldl:
  "i \<le> length validKlines \<Longrightarrow>
   emaLoop validKlines k i ema = foldl (emaStep k) ema (map k_close (drop i validKlines))"
proof (induction validKlines k i ema rule: emaLoop.induct)
  case (1 validKlines k i ema)
  show ?case
  proof (cases "i < length validKlines")
    case True
    then have d: "drop i validKlines = validKlines ! i # drop (i + 1) validKlines"
      by (simp add: Cons_nth_drop_Suc)
    have e: "jadd (jmul (k_close (validKlines ! i)) k) (jmul ema (jsub (Fin 1) k))
               = emaStep k ema (k_close (validKlines ! i))"
      by (simp add: emaStep_def)
    from True have le: "i + 1 \<le> length validKlines" by simp
    have "emaLoop validKlines k i ema
            = emaLoop validKlines k (i + 1) (emaStep k ema (k_close (validKlines ! i)))"
      using True by (subst emaLoop.simps) (simp add: e)
    also have "\<dots> = foldl (emaStep k) (emaStep k ema (k_close (validKlines ! i)))
                        (map k_close (drop (i + 1) validKlines))"
      using "1.IH"[OF True le] by (simp only: e)
    also have "\<dots> = foldl (emaStep k) ema (map k_close (drop i validKlines))"
      by (simp add: d)
    finally show ?thesis .
  next
    case False
    with "1.prems" show ?thesis by (subst emaLoop.simps) simp
  qed
qed

lemma validClose_iff: "validClose k \<longleftrightarrow> finitePositive (k_close k)"
  by (cases "k_close k") (simp_all add: validClose_def)

lemma emaStep_positive:
  assumes "0 < \<kappa>" "\<kappa> \<le> 1" "finitePositive ema" "finitePositive c"
  shows "finitePositive (emaStep (Fin \<kappa>) ema c)"
proof -
  from assms obtain e x where ex: "ema = Fin e" "0 < e" "c = Fin x" "0 < x"
    by (auto simp: finitePositive_iff)
  have "emaStep (Fin \<kappa>) ema c = Fin (x * \<kappa> + e * (1 - \<kappa>))"
    using ex by (simp add: emaStep_def jsub_def)
  moreover have "0 < x * \<kappa>" using ex assms by simp
  moreover have "0 \<le> e * (1 - \<kappa>)" using ex assms by simp
  ultimately show ?thesis by (simp add: add_pos_nonneg)
qed

lemma foldl_emaStep_positive:
  "0 < \<kappa> \<Longrightarrow> \<kappa> \<le> 1 \<Longrightarrow> finitePositive ema \<Longrightarrow> list_all finitePositive cs \<Longrightarrow>
   finitePositive (foldl (emaStep (Fin \<kappa>)) ema cs)"
  by (induction cs arbitrary: ema) (simp_all add: emaStep_positive)

text \<open>
  C5. For every candle series and every period of at least one:
  \<^verbatim>\<open>calculateEMA\<close> returns the current price when fewer than \<open>period\<close> closes pass the
  filter (not \<^verbatim>\<open>NaN\<close>, positive, finite); otherwise it returns the value seeded with
  the first valid close and stepped over every later valid close, in order, by
  \<open>ema' = close * k + ema * (1 - k)\<close> with \<open>k = 2 / (period + 1)\<close>. It never throws, and the
  final sanity check on the result never replaces it. (The handler calls it with a
  period of 200.)
\<close>

theorem ema_law:
  "1 \<le> period \<Longrightarrow> filter validClose klines = valid \<Longrightarrow>
   calculateEMA price klines period =
     Inr (if length valid < period then price
          else foldl (emaStep (Fin (2 / (real period + 1)))) (k_close (hd valid))
                 (map k_close (tl valid)))"
proof -
  assume p: "1 \<le> period" and valid: "filter validClose klines = valid"
  let ?\<kappa> = "2 / (real period + 1)"
  show ?thesis
  proof (cases "length valid < period")
    case True
    then show ?thesis using valid by (simp add: calculateEMA_def Let_def)
  next
    case False
    with p have ne: "valid \<noteq> []" by auto
    from False have len: "\<not> length klines < period"
      using valid length_filter_le[of validClose klines] by simp
    have pos: "list_all finitePositive (map k_close valid)"
      using valid by (auto simp: list_all_iff validClose_iff)
    from ne obtain v vs where vvs: "valid = v # vs" by (cases valid) auto
    have k1: "0 < ?\<kappa>" by simp
    have k2: "?\<kappa> \<le> 1" using p by simp
    have loop: "emaLoop valid (Fin ?\<kappa>) 1 (k_close (valid ! 0))
                  = foldl (emaStep (Fin ?\<kappa>)) (k_close (hd valid)) (map k_close (tl valid))"
      using emaLoop_foldl[of 1 valid "Fin ?\<kappa>" "k_close (valid ! 0)"] vvs by simp
    have "finitePositive (foldl (emaStep (Fin ?\<kappa>)) (k_close (hd valid)) (map k_close (tl valid)))"
      using foldl_emaStep_positive[OF k1 k2, of "k_close v" "map k_close vs"] pos vvs by simp
    from finitePositive_guard[OF this] loop False len ne valid show ?thesis
      by (simp add: calculateEMA_def Let_def)
  qed
qed

theorem ema_law_witness:
  "(1::nat) \<le> 2
   \<and> calculateEMA (Fin 5) (map flatCandle [1, 3]) 2 = Inr (Fin (7 / 3))
   \<and> calculateEMA (Fin 5) [brokenCandle, flatCandle 1] 2 = Inr (Fin 5)"
  using ema_law[of 2 "map flatCandle [1, 3]" "map flatCandle [1, 3]" "Fin 5"]
        ema_law[of 2 "[brokenCandle, flatCandle 1]" "[flatCandle 1]" "Fin 5"]
  by (simp add: validClose_def flatCandle_def brokenCandle_def emaStep_def jsub_def)

section \<open>Properties of the z-score\<close>

lemma rounded_isNaN [simp]: "isNaN (rounded x) = isNaN x"
  by (cases x) simp_all

lemma rounded_isFinite [simp]: "isFinite (rounded x) = isFinite x"
  by (cases x) simp_all

lemma rounded_jsign [simp]: "jsign (rounded x) = jsign x"
  by (cases x) (simp_all add: round53_pos_iff round53_neg_iff)

lemma rounded_positive [simp]: "jgt (rounded x) (Fin 0) = jgt x (Fin 0)"
  by (cases x) (simp_all add: round53_pos_iff)

lemma rounded_eq_NaN [simp]: "rounded x = NaN \<longleftrightarrow> x = NaN"
  by (cases x) simp_all

lemma rounded_eq_PInf [simp]: "rounded x = PInf \<longleftrightarrow> x = PInf"
  by (cases x) simp_all

lemma rounded_eq_NInf [simp]: "rounded x = NInf \<longleftrightarrow> x = NInf"
  by (cases x) simp_all

declare histLoop.simps [simp del]

lemma histLoop_done:
  "\<not> i < length w \<Longrightarrow> histLoop w i acc = acc"
  by (subst histLoop.simps) simp

lemma histLoop_validReturns:
  "1 \<le> i \<Longrightarrow> i \<le> length w \<Longrightarrow>
   histLoop w i acc = acc @ validReturns (map k_close (drop (i - 1) w))"
proof (induction w i acc rule: histLoop.induct)
  case (1 w i acc)
  show ?case
  proof (cases "i < length w")
    case False
    with "1.prems" have i: "i = length w" by simp
    with "1.prems" have "drop (i - 1) w = [w ! (i - 1)]"
      by (metis Cons_nth_drop_Suc One_nat_def Suc_pred diff_less drop_all le_refl
          less_le_trans zero_less_one)
    with False show ?thesis by (simp add: histLoop_done)
  next
    case True
    from True "1.prems" have d1: "drop (i - 1) w = w ! (i - 1) # drop i w"
      by (metis Cons_nth_drop_Suc One_nat_def Suc_pred less_imp_diff_less less_le_trans
          zero_less_one)
    from True have d2: "drop i w = w ! i # drop (i + 1) w"
      by (simp add: Cons_nth_drop_Suc)
    have le: "1 \<le> i + 1" "i + 1 \<le> length w" using True by simp_all
    let ?ok = "jgt (k_close (w ! (i - 1))) (Fin 0) \<and> jgt (k_close (w ! i)) (Fin 0)
               \<and> \<not> isNaN (k_close (w ! (i - 1))) \<and> \<not> isNaN (k_close (w ! i))"
    show ?thesis
    proof (cases ?ok)
      case ok: True
      have "histLoop w i acc = histLoop w (i + 1)
              (acc @ [pctChangeF (k_close (w ! i)) (k_close (w ! (i - 1)))])"
        using True ok by (subst histLoop.simps) (simp add: Let_def)
      also have "\<dots> = (acc @ [pctChangeF (k_close (w ! i)) (k_close (w ! (i - 1)))])
                         @ validReturns (map k_close (drop i w))"
        using "1.IH"(1)[OF True refl refl _ le] ok by simp
      also have "\<dots> = acc @ validReturns (map k_close (drop (i - 1) w))"
        using ok by (simp only: d1 d2) simp
      finally show ?thesis .
    next
      case no: False
      have "histLoop w i acc = histLoop w (i + 1) acc"
        using True no by (subst histLoop.simps) (auto simp: Let_def)
      also have "\<dots> = acc @ validReturns (map k_close (drop i w))"
        using "1.IH"(2)[OF True refl refl _ le] no by simp
      also have "\<dots> = acc @ validReturns (map k_close (drop (i - 1) w))"
        using no by (simp only: d1 d2) auto
      finally show ?thesis .
    qed
  qed
qed

text \<open>Sums in doubles, from left to right.\<close>

lemma fadd_NaN [simp]: "fadd s NaN = NaN" "fadd NaN s = NaN"
  by (cases s; simp add: fadd_def)+


















lemma sliceLast_length: "n \<le> length xs \<Longrightarrow> 0 < n \<Longrightarrow> length (sliceLast n xs) = n"
  by (simp add: sliceLast_def)


lemma calcZScore_unfold:
  assumes len: "31 \<le> length klines"
    and rs: "validReturns (map k_close (sliceLast 31 klines)) = rs"
  shows "calcZScore price dayReturn klines =
     (if 30 \<le> length rs
      then
        let todayReturn =
              (if jgt (k_close (last klines)) (Fin 0)
               then pctChangeF price (k_close (last klines)) else dayReturn)
        in if jgt (fsqrt (varianceOf rs)) (Fin 0) \<and> \<not> isNaN (meanOf rs)
              \<and> \<not> isNaN (fsqrt (varianceOf rs)) \<and> \<not> isNaN todayReturn
           then Some (fdiv (fsub (meanOf rs) todayReturn) (fsqrt (varianceOf rs)))
           else None
      else None)"
proof -
  have l31: "length (sliceLast 31 klines) = 31" using len by (simp add: sliceLast_length)
  then have "histLoop (sliceLast 31 klines) 1 [] = rs"
    using histLoop_validReturns[of 1 "sliceLast 31 klines" "[]"] rs by simp
  moreover have "klines ! (length klines - 1) = last klines"
    using len by (metis last_conv_nth le_zero_eq list.size(3) zero_neq_numeral)
  ultimately show ?thesis
    using len by (simp add: calcZScore_def Let_def)
qed



















subsection \<open>A series on which the rounding decides\<close>

text \<open>
  On the closes of \<open>geometric\<close> all thirty returns are \<open>-100 / 3\<close> in exact arithmetic,
  and their standard deviation would be zero. In doubles every return is
  \<^verbatim>\<open>-33.33333333333333\<close>, the sum of the thirty of them divided by 30 is
  \<^verbatim>\<open>-33.33333333333334\<close>, one unit in the last place away, and the computed standard
  deviation is \<open>2\<close> to the power \<open>-46\<close>: greater than zero. With the current price at the
  last close the z-score is present. The roundings below are those of the returns, of
  the partial sums and of the squares, each one checked against \<open>round53\<close>.
\<close>

lemma geometric_roundings:
  "round53 (- (1 / 3)) = - (6004799503160661 / 18014398509481984)"
  "round53 (- (150119987579016525 / 4503599627370496)) = - (2345624805922133 / 70368744177664)"
  "round53 (- (2345624805922133 / 70368744177664)) = - (2345624805922133 / 70368744177664)"
  "round53 (- (2345624805922133 / 35184372088832)) = - (2345624805922133 / 35184372088832)"
  "round53 (- (7036874417766399 / 70368744177664)) = - (7036874417766399 / 70368744177664)"
  "round53 (- (2345624805922133 / 17592186044416)) = - (2345624805922133 / 17592186044416)"
  "round53 (- (11728124029610665 / 70368744177664)) = - (1466015503701333 / 8796093022208)"
  "round53 (- (14073748835532797 / 70368744177664)) = - (3518437208883199 / 17592186044416)"
  "round53 (- (16419373641454929 / 70368744177664)) = - (1026210852590933 / 4398046511104)"
  "round53 (- (18764998447377061 / 70368744177664)) = - (4691249611844265 / 17592186044416)"
  "round53 (- (21110623253299193 / 70368744177664)) = - (2638827906662399 / 8796093022208)"
  "round53 (- (23456248059221325 / 70368744177664)) = - (5864062014805331 / 17592186044416)"
  "round53 (- (25801872865143457 / 70368744177664)) = - (806308527035733 / 2199023255552)"
  "round53 (- (28147497671065589 / 70368744177664)) = - (7036874417766397 / 17592186044416)"
  "round53 (- (30493122476987721 / 70368744177664)) = - (3811640309623465 / 8796093022208)"
  "round53 (- (32838747282909853 / 70368744177664)) = - (8209686820727463 / 17592186044416)"
  "round53 (- (35184372088831985 / 70368744177664)) = - (2199023255551999 / 4398046511104)"
  "round53 (- (37529996894754117 / 70368744177664)) = - (4691249611844265 / 8796093022208)"
  "round53 (- (39875621700676253 / 70368744177664)) = - (1246113178146133 / 2199023255552)"
  "round53 (- (42221246506598389 / 70368744177664)) = - (5277655813324799 / 8796093022208)"
  "round53 (- (44566871312520525 / 70368744177664)) = - (2785429457032533 / 4398046511104)"
  "round53 (- (46912496118442661 / 70368744177664)) = - (5864062014805333 / 8796093022208)"
  "round53 (- (49258120924364797 / 70368744177664)) = - 700"
  "round53 (- (51603745730286933 / 70368744177664)) = - (6450468216285867 / 8796093022208)"
  "round53 (- (53949370536209069 / 70368744177664)) = - (3371835658513067 / 4398046511104)"
  "round53 (- (56294995342131205 / 70368744177664)) = - (7036874417766401 / 8796093022208)"
  "round53 (- (58640620148053341 / 70368744177664)) = - (1832519379626667 / 2199023255552)"
  "round53 (- (60986244953975477 / 70368744177664)) = - (7623280619246935 / 8796093022208)"
  "round53 (- (63331869759897613 / 70368744177664)) = - (3958241859993601 / 4398046511104)"
  "round53 (- (65677494565819749 / 70368744177664)) = - (8209686820727469 / 8796093022208)"
  "round53 (- (68023119371741885 / 70368744177664)) = - (1062861240183467 / 1099511627776)"
  "round53 (- (70368744177664021 / 70368744177664)) = - (8796093022208003 / 8796093022208)"
  "round53 (- (8796093022208003 / 263882790666240)) = - (1172812402961067 / 35184372088832)"
  "round53 (1 / 70368744177664) = 1 / 70368744177664"
  "round53 (1 / 4951760157141521099596496896) = 1 / 4951760157141521099596496896"
  "round53 (1 / 2475880078570760549798248448) = 1 / 2475880078570760549798248448"
  "round53 (3 / 4951760157141521099596496896) = 3 / 4951760157141521099596496896"
  "round53 (1 / 1237940039285380274899124224) = 1 / 1237940039285380274899124224"
  "round53 (5 / 4951760157141521099596496896) = 5 / 4951760157141521099596496896"
  "round53 (3 / 2475880078570760549798248448) = 3 / 2475880078570760549798248448"
  "round53 (7 / 4951760157141521099596496896) = 7 / 4951760157141521099596496896"
  "round53 (1 / 618970019642690137449562112) = 1 / 618970019642690137449562112"
  "round53 (9 / 4951760157141521099596496896) = 9 / 4951760157141521099596496896"
  "round53 (5 / 2475880078570760549798248448) = 5 / 2475880078570760549798248448"
  "round53 (11 / 4951760157141521099596496896) = 11 / 4951760157141521099596496896"
  "round53 (3 / 1237940039285380274899124224) = 3 / 1237940039285380274899124224"
  "round53 (13 / 4951760157141521099596496896) = 13 / 4951760157141521099596496896"
  "round53 (7 / 2475880078570760549798248448) = 7 / 2475880078570760549798248448"
  "round53 (15 / 4951760157141521099596496896) = 15 / 4951760157141521099596496896"
  "round53 (1 / 309485009821345068724781056) = 1 / 309485009821345068724781056"
  "round53 (17 / 4951760157141521099596496896) = 17 / 4951760157141521099596496896"
  "round53 (9 / 2475880078570760549798248448) = 9 / 2475880078570760549798248448"
  "round53 (19 / 4951760157141521099596496896) = 19 / 4951760157141521099596496896"
  "round53 (5 / 1237940039285380274899124224) = 5 / 1237940039285380274899124224"
  "round53 (21 / 4951760157141521099596496896) = 21 / 4951760157141521099596496896"
  "round53 (11 / 2475880078570760549798248448) = 11 / 2475880078570760549798248448"
  "round53 (23 / 4951760157141521099596496896) = 23 / 4951760157141521099596496896"
  "round53 (3 / 618970019642690137449562112) = 3 / 618970019642690137449562112"
  "round53 (25 / 4951760157141521099596496896) = 25 / 4951760157141521099596496896"
  "round53 (13 / 2475880078570760549798248448) = 13 / 2475880078570760549798248448"
  "round53 (27 / 4951760157141521099596496896) = 27 / 4951760157141521099596496896"
  "round53 (7 / 1237940039285380274899124224) = 7 / 1237940039285380274899124224"
  "round53 (29 / 4951760157141521099596496896) = 29 / 4951760157141521099596496896"
  "round53 (15 / 2475880078570760549798248448) = 15 / 2475880078570760549798248448"
  "round53 (- (1172812402961067 / 35184372088832)) = - (1172812402961067 / 35184372088832)"
  subgoal using round53_down[of "- (1 / 3)" 54] by (simp add: roundEven_def)
  subgoal using round53_down[of "- (150119987579016525 / 4503599627370496)" 47] by (simp add: roundEven_def)
  subgoal using round53_down[of "- (2345624805922133 / 70368744177664)" 47] by (simp add: roundEven_def)
  subgoal using round53_down[of "- (2345624805922133 / 35184372088832)" 46] by (simp add: roundEven_def)
  subgoal using round53_down[of "- (7036874417766399 / 70368744177664)" 46] by (simp add: roundEven_def)
  subgoal using round53_down[of "- (2345624805922133 / 17592186044416)" 45] by (simp add: roundEven_def)
  subgoal using round53_down[of "- (11728124029610665 / 70368744177664)" 45] by (simp add: roundEven_def)
  subgoal using round53_down[of "- (14073748835532797 / 70368744177664)" 45] by (simp add: roundEven_def)
  subgoal using round53_down[of "- (16419373641454929 / 70368744177664)" 45] by (simp add: roundEven_def)
  subgoal using round53_down[of "- (18764998447377061 / 70368744177664)" 44] by (simp add: roundEven_def)
  subgoal using round53_down[of "- (21110623253299193 / 70368744177664)" 44] by (simp add: roundEven_def)
  subgoal using round53_down[of "- (23456248059221325 / 70368744177664)" 44] by (simp add: roundEven_def)
  subgoal using round53_down[of "- (25801872865143457 / 70368744177664)" 44] by (simp add: roundEven_def)
  subgoal using round53_down[of "- (28147497671065589 / 70368744177664)" 44] by (simp add: roundEven_def)
  subgoal using round53_down[of "- (30493122476987721 / 70368744177664)" 44] by (simp add: roundEven_def)
  subgoal using round53_down[of "- (32838747282909853 / 70368744177664)" 44] by (simp add: roundEven_def)
  subgoal using round53_down[of "- (35184372088831985 / 70368744177664)" 44] by (simp add: roundEven_def)
  subgoal using round53_down[of "- (37529996894754117 / 70368744177664)" 43] by (simp add: roundEven_def)
  subgoal using round53_down[of "- (39875621700676253 / 70368744177664)" 43] by (simp add: roundEven_def)
  subgoal using round53_down[of "- (42221246506598389 / 70368744177664)" 43] by (simp add: roundEven_def)
  subgoal using round53_down[of "- (44566871312520525 / 70368744177664)" 43] by (simp add: roundEven_def)
  subgoal using round53_down[of "- (46912496118442661 / 70368744177664)" 43] by (simp add: roundEven_def)
  subgoal using round53_down[of "- (49258120924364797 / 70368744177664)" 43] by (simp add: roundEven_def)
  subgoal using round53_down[of "- (51603745730286933 / 70368744177664)" 43] by (simp add: roundEven_def)
  subgoal using round53_down[of "- (53949370536209069 / 70368744177664)" 43] by (simp add: roundEven_def)
  subgoal using round53_down[of "- (56294995342131205 / 70368744177664)" 43] by (simp add: roundEven_def)
  subgoal using round53_down[of "- (58640620148053341 / 70368744177664)" 43] by (simp add: roundEven_def)
  subgoal using round53_down[of "- (60986244953975477 / 70368744177664)" 43] by (simp add: roundEven_def)
  subgoal using round53_down[of "- (63331869759897613 / 70368744177664)" 43] by (simp add: roundEven_def)
  subgoal using round53_down[of "- (65677494565819749 / 70368744177664)" 43] by (simp add: roundEven_def)
  subgoal using round53_down[of "- (68023119371741885 / 70368744177664)" 43] by (simp add: roundEven_def)
  subgoal using round53_down[of "- (70368744177664021 / 70368744177664)" 43] by (simp add: roundEven_def)
  subgoal using round53_down[of "- (8796093022208003 / 263882790666240)" 47] by (simp add: roundEven_def)
  subgoal using round53_down[of "1 / 70368744177664" 98] by (simp add: roundEven_def)
  subgoal using round53_down[of "1 / 4951760157141521099596496896" 144] by (simp add: roundEven_def)
  subgoal using round53_down[of "1 / 2475880078570760549798248448" 143] by (simp add: roundEven_def)
  subgoal using round53_down[of "3 / 4951760157141521099596496896" 143] by (simp add: roundEven_def)
  subgoal using round53_down[of "1 / 1237940039285380274899124224" 142] by (simp add: roundEven_def)
  subgoal using round53_down[of "5 / 4951760157141521099596496896" 142] by (simp add: roundEven_def)
  subgoal using round53_down[of "3 / 2475880078570760549798248448" 142] by (simp add: roundEven_def)
  subgoal using round53_down[of "7 / 4951760157141521099596496896" 142] by (simp add: roundEven_def)
  subgoal using round53_down[of "1 / 618970019642690137449562112" 141] by (simp add: roundEven_def)
  subgoal using round53_down[of "9 / 4951760157141521099596496896" 141] by (simp add: roundEven_def)
  subgoal using round53_down[of "5 / 2475880078570760549798248448" 141] by (simp add: roundEven_def)
  subgoal using round53_down[of "11 / 4951760157141521099596496896" 141] by (simp add: roundEven_def)
  subgoal using round53_down[of "3 / 1237940039285380274899124224" 141] by (simp add: roundEven_def)
  subgoal using round53_down[of "13 / 4951760157141521099596496896" 141] by (simp add: roundEven_def)
  subgoal using round53_down[of "7 / 2475880078570760549798248448" 141] by (simp add: roundEven_def)
  subgoal using round53_down[of "15 / 4951760157141521099596496896" 141] by (simp add: roundEven_def)
  subgoal using round53_down[of "1 / 309485009821345068724781056" 140] by (simp add: roundEven_def)
  subgoal using round53_down[of "17 / 4951760157141521099596496896" 140] by (simp add: roundEven_def)
  subgoal using round53_down[of "9 / 2475880078570760549798248448" 140] by (simp add: roundEven_def)
  subgoal using round53_down[of "19 / 4951760157141521099596496896" 140] by (simp add: roundEven_def)
  subgoal using round53_down[of "5 / 1237940039285380274899124224" 140] by (simp add: roundEven_def)
  subgoal using round53_down[of "21 / 4951760157141521099596496896" 140] by (simp add: roundEven_def)
  subgoal using round53_down[of "11 / 2475880078570760549798248448" 140] by (simp add: roundEven_def)
  subgoal using round53_down[of "23 / 4951760157141521099596496896" 140] by (simp add: roundEven_def)
  subgoal using round53_down[of "3 / 618970019642690137449562112" 140] by (simp add: roundEven_def)
  subgoal using round53_down[of "25 / 4951760157141521099596496896" 140] by (simp add: roundEven_def)
  subgoal using round53_down[of "13 / 2475880078570760549798248448" 140] by (simp add: roundEven_def)
  subgoal using round53_down[of "27 / 4951760157141521099596496896" 140] by (simp add: roundEven_def)
  subgoal using round53_down[of "7 / 1237940039285380274899124224" 140] by (simp add: roundEven_def)
  subgoal using round53_down[of "29 / 4951760157141521099596496896" 140] by (simp add: roundEven_def)
  subgoal using round53_down[of "15 / 2475880078570760549798248448" 140] by (simp add: roundEven_def)
  subgoal using round53_down[of "- (1172812402961067 / 35184372088832)" 47] by (simp add: roundEven_def)
  done

lemma geometric_length: "length geometric = 31"
  by (simp add: geometric_def)

lemma geometric_last: "k_close (last geometric) = Fin 1073741824"
  by (simp add: geometric_def flatCandle_def)

lemma geometric_returns:
  "validReturns (map k_close (sliceLast 31 geometric)) =
     replicate 30 (Fin (- (2345624805922133 / 70368744177664)))"
  by (simp add: geometric_def sliceLast_def flatCandle_def pctChangeF_def fmul_def fdiv_def
      fsub_def jsub_def geometric_roundings numeral_eq_Suc)

lemma geometric_count:
  "length (validReturns (map k_close (sliceLast 31 geometric))) = 30"
  by (simp add: geometric_returns)

lemma geometric_sum:
  "foldl (\<lambda>sum val. fadd sum val) (Fin 0)
     (replicate 30 (Fin (- (2345624805922133 / 70368744177664)))) =
   Fin (- (8796093022208003 / 8796093022208))"
  by (simp add: numeral_eq_Suc fadd_def geometric_roundings)

lemma geometric_mean:
  "meanOf (validReturns (map k_close (sliceLast 31 geometric))) =
     Fin (- (1172812402961067 / 35184372088832))"
  by (simp add: geometric_returns meanOf_def geometric_sum fdiv_def geometric_roundings)

lemma geometric_squares:
  "foldl (\<lambda>sum val. fadd sum (fpow2 (fsub val (Fin (- (1172812402961067 / 35184372088832))))))
     (Fin 0) (replicate 30 (Fin (- (2345624805922133 / 70368744177664)))) =
   Fin (15 / 2475880078570760549798248448)"
  by (simp add: numeral_eq_Suc fadd_def fsub_def jsub_def fpow2_def geometric_roundings)

lemma sqrt_variance: "sqrt (1 / 4951760157141521099596496896) = 1 / 70368744177664"
  by (rule real_sqrt_unique) (simp_all add: power2_eq_square)

lemma geometric_stdDev:
  "fsqrt (varianceOf (validReturns (map k_close (sliceLast 31 geometric)))) =
     Fin (1 / 70368744177664)"
  using geometric_mean
  by (simp add: geometric_returns varianceOf_def geometric_squares fdiv_def fsqrt_def
      sqrt_variance geometric_roundings)

lemma geometric_zscore:
  "calcZScore (Fin 1073741824) (Fin 0) geometric = Some (Fin (- 2345624805922134))"
  using calcZScore_unfold[OF _ refl, of geometric "Fin 1073741824" "Fin 0"]
  by (simp add: geometric_length geometric_last geometric_mean geometric_stdDev
      pctChangeF_def fmul_def fdiv_def fsub_def jsub_def round53_zero geometric_roundings
      geometric_count Let_def)

section \<open>Properties of the sort\<close>

lemma jgt_jsub: "jgt (jsub b a) (Fin 0) = jgt b a"
  by (cases a; cases b) (simp_all add: jsub_def)

lemma jgt_not_NaN: "jgt a b \<Longrightarrow> \<not> isNaN a \<and> \<not> isNaN b"
  by (cases a; cases b) simp_all

lemma jge_not_NaN: "jge a b \<Longrightarrow> \<not> isNaN a \<and> \<not> isNaN b"
  by (cases a; cases b) simp_all

lemma jge_total: "\<not> isNaN a \<Longrightarrow> \<not> isNaN b \<Longrightarrow> \<not> jgt b a \<Longrightarrow> jge a b"
  by (cases a; cases b) auto

lemma jgt_jge: "jgt a b \<Longrightarrow> jge a b"
  by (cases a; cases b) auto

lemma jge_trans: "jge a b \<Longrightarrow> jge b c \<Longrightarrow> jge a c"
  by (cases a; cases b; cases c) auto

lemma jgt_neq: "jgt a b \<Longrightarrow> a \<noteq> b"
  by (cases a; cases b) auto

lemma set_insertBy: "set (insertBy cmp x ys) = insert x (set ys)"
  by (induction ys) auto

lemma set_sortBy: "set (sortBy cmp xs) = set xs"
  by (induction xs) (simp_all add: sortBy_def set_insertBy)

lemma sortBy_Cons: "sortBy cmp (x # xs) = insertBy cmp x (sortBy cmp xs)"
  by (simp add: sortBy_def)

lemma sortBy_Nil: "sortBy cmp [] = []"
  by (simp add: sortBy_def)

lemma distinct_map_insertBy:
  "distinct (map f (insertBy cmp x ys)) = distinct (map f (x # ys))"
  by (induction ys) (auto simp: set_insertBy)

lemma distinct_map_sortBy: "distinct (map f (sortBy cmp xs)) = distinct (map f xs)"
  by (induction xs) (simp_all add: sortBy_Nil sortBy_Cons distinct_map_insertBy set_sortBy)

text \<open>Sorting by a key, largest first.\<close>

lemma sorted_insertBy:
  assumes "\<forall>y \<in> set (x # ys). \<not> isNaN (key y)"
    and "sorted_wrt (\<lambda>a b. jge (key a) (key b)) ys"
  shows "sorted_wrt (\<lambda>a b. jge (key a) (key b)) (insertBy (\<lambda>a b. jsub (key b) (key a)) x ys)"
  using assms
proof (induction ys)
  case Nil
  then show ?case by simp
next
  case (Cons y ys)
  show ?case
  proof (cases "jgt (key y) (key x)")
    case True
    then have yx: "jge (key y) (key x)" by (rule jgt_jge)
    from Cons have ih: "sorted_wrt (\<lambda>a b. jge (key a) (key b))
                          (insertBy (\<lambda>a b. jsub (key b) (key a)) x ys)"
      by simp
    from Cons.prems have "\<forall>z \<in> set ys. jge (key y) (key z)" by simp
    with yx have "\<forall>z \<in> set (insertBy (\<lambda>a b. jsub (key b) (key a)) x ys). jge (key y) (key z)"
      by (simp add: set_insertBy)
    with ih True show ?thesis by (simp add: jgt_jsub)
  next
    case False
    with Cons.prems have xy: "jge (key x) (key y)" by (simp add: jge_total)
    from Cons.prems have "\<forall>z \<in> set ys. jge (key y) (key z)" by simp
    with xy have "\<forall>z \<in> set ys. jge (key x) (key z)" using jge_trans by blast
    with xy Cons.prems False show ?thesis by (simp add: jgt_jsub)
  qed
qed

lemma sorted_sortBy:
  "\<forall>y \<in> set xs. \<not> isNaN (key y) \<Longrightarrow>
   sorted_wrt (\<lambda>a b. jge (key a) (key b)) (sortBy (\<lambda>a b. jsub (key b) (key a)) xs)"
proof (induction xs)
  case Nil
  then show ?case by (simp add: sortBy_Nil)
next
  case (Cons x xs)
  then have "sorted_wrt (\<lambda>a b. jge (key a) (key b)) (sortBy (\<lambda>a b. jsub (key b) (key a)) xs)"
    by simp
  moreover have "\<forall>y \<in> set (x # sortBy (\<lambda>a b. jsub (key b) (key a)) xs). \<not> isNaN (key y)"
    using Cons.prems by (simp add: set_sortBy)
  ultimately show ?case by (simp only: sortBy_Cons sorted_insertBy)
qed

text \<open>Elements with equal keys keep their order.\<close>

lemma stable_insertBy:
  "filter (\<lambda>t. key t = v) (insertBy (\<lambda>a b. jsub (key b) (key a)) x ys)
     = filter (\<lambda>t. key t = v) (x # ys)"
proof (induction ys)
  case Nil
  then show ?case by simp
next
  case (Cons y ys)
  show ?case
  proof (cases "jgt (key y) (key x)")
    case True
    then have "key y \<noteq> key x" by (rule jgt_neq)
    with True Cons show ?thesis by (auto simp: jgt_jsub)
  next
    case False
    then show ?thesis by (simp add: jgt_jsub)
  qed
qed

lemma stable_sortBy:
  "filter (\<lambda>t. key t = v) (sortBy (\<lambda>a b. jsub (key b) (key a)) xs) = filter (\<lambda>t. key t = v) xs"
  by (induction xs) (simp_all add: sortBy_Nil sortBy_Cons stable_insertBy)

lemma sorted_wrt_take: "sorted_wrt P xs \<Longrightarrow> sorted_wrt P (take n xs)"
  by (metis append_take_drop_id sorted_wrt_append)

section \<open>Properties of the instrument universe\<close>

lemma activeSymbols_iff:
  "x \<in> activeSymbols symbols \<longleftrightarrow>
   (\<exists>s \<in> set symbols. s_symbol s = x \<and> status s = ''TRADING''
        \<and> contractType s = ''PERPETUAL'' \<and> endsWith x ''USDT'')"
  by (auto simp: activeSymbols_def)

text \<open>
  C3. For every metadata list and every ticker list the resolved universe has at most
  100 entries. Every entry is a ticker of the feed whose symbol has a metadata entry
  with status \<^verbatim>\<open>TRADING\<close> and contract type \<^verbatim>\<open>PERPETUAL\<close>, whose symbol ends in
  \<^verbatim>\<open>USDT\<close>, and whose parsed last price and parsed 24h quote volume are greater than
  zero. The entries are in descending order of quote volume, and entries with equal
  quote volume keep the order they have in the feed.
\<close>

theorem universe_law:
  "usdtPairs symbols tickers = pairs \<Longrightarrow>
   length pairs \<le> 100
   \<and> (\<forall>t \<in> set pairs.
        t \<in> set tickers
        \<and> (\<exists>s \<in> set symbols. s_symbol s = t_symbol t \<and> status s = ''TRADING''
               \<and> contractType s = ''PERPETUAL'')
        \<and> endsWith (t_symbol t) ''USDT''
        \<and> jgt (lastPrice t) (Fin 0) \<and> jgt (quoteVolume t) (Fin 0))
   \<and> sorted_wrt (\<lambda>a b. jge (quoteVolume a) (quoteVolume b)) pairs
   \<and> (\<forall>v. \<exists>rest. filter (\<lambda>t. quoteVolume t = v) pairs @ rest
                    = filter (\<lambda>t. quoteVolume t = v)
                        (filter (tickerFilter (activeSymbols symbols)) tickers))"
proof -
  assume p: "usdtPairs symbols tickers = pairs"
  let ?eligible = "filter (tickerFilter (activeSymbols symbols)) tickers"
  let ?sorted = "sortBy (\<lambda>a b. jsub (quoteVolume b) (quoteVolume a)) ?eligible"
  have pairs: "pairs = take 100 ?sorted" using p by (simp add: usdtPairs_def)
  have len: "length pairs \<le> 100" using pairs by simp
  have sub: "set pairs \<subseteq> set ?eligible"
    using pairs set_take_subset[of 100 ?sorted] by (simp add: set_sortBy)
  have mem: "t \<in> set tickers
        \<and> (\<exists>s \<in> set symbols. s_symbol s = t_symbol t \<and> status s = ''TRADING''
               \<and> contractType s = ''PERPETUAL'')
        \<and> endsWith (t_symbol t) ''USDT''
        \<and> jgt (lastPrice t) (Fin 0) \<and> jgt (quoteVolume t) (Fin 0)" if "t \<in> set pairs" for t
  proof -
    from that sub have t: "t \<in> set tickers" "tickerFilter (activeSymbols symbols) t" by auto
    then have "t_symbol t \<in> activeSymbols symbols" by (simp add: tickerFilter_def Let_def)
    with t show ?thesis by (auto simp: activeSymbols_iff tickerFilter_def Let_def)
  qed
  have "\<forall>y \<in> set ?eligible. \<not> isNaN (quoteVolume y)"
    using jgt_not_NaN by (auto simp: tickerFilter_def Let_def)
  then have "sorted_wrt (\<lambda>a b. jge (quoteVolume a) (quoteVolume b)) ?sorted"
    by (rule sorted_sortBy)
  then have srt: "sorted_wrt (\<lambda>a b. jge (quoteVolume a) (quoteVolume b)) pairs"
    unfolding pairs by (rule sorted_wrt_take)
  have ties: "\<exists>rest. filter (\<lambda>t. quoteVolume t = v) pairs @ rest
                    = filter (\<lambda>t. quoteVolume t = v) ?eligible" for v
  proof -
    have "filter (\<lambda>t. quoteVolume t = v) (take 100 ?sorted)
            @ filter (\<lambda>t. quoteVolume t = v) (drop 100 ?sorted)
          = filter (\<lambda>t. quoteVolume t = v) ?sorted"
      by (metis append_take_drop_id filter_append)
    then show ?thesis unfolding pairs by (metis stable_sortBy)
  qed
  from len mem srt ties show ?thesis by blast
qed

lemma sample_universe:
  "usdtPairs [btcInfo, ethInfo, xrpInfo] [btcTicker, xrpTicker, ethTicker] = [ethTicker, btcTicker]"
  by (simp add: usdtPairs_def sortBy_def tickerFilter_def activeSymbols_def endsWith_def
      btcInfo_def ethInfo_def xrpInfo_def btcTicker_def ethTicker_def xrpTicker_def jsub_def)

theorem universe_law_witness:
  "usdtPairs [btcInfo, ethInfo, xrpInfo] [btcTicker, xrpTicker, ethTicker] = [ethTicker, btcTicker]
   \<and> length [ethTicker, btcTicker] \<le> 100
   \<and> sorted_wrt (\<lambda>a b. jge (quoteVolume a) (quoteVolume b)) [ethTicker, btcTicker]"
  using universe_law[OF sample_universe] sample_universe by blast

section \<open>Properties of the pipeline\<close>

declare processBatches.simps [simp del]

lemma map_filter_collect:
  "map the (filter (\<lambda>r. r \<noteq> None) (map f xs)) = List.map_filter f xs"
  by (induction xs) (auto split: option.splits)

lemma map_filter_append: "List.map_filter f (xs @ ys) = List.map_filter f xs @ List.map_filter f ys"
  by (simp add: List.map_filter_def)

lemma set_map_filter: "r \<in> set (List.map_filter f xs) \<longleftrightarrow> (\<exists>x \<in> set xs. f x = Some r)"
  by (induction xs) (auto split: option.splits)

lemma processBatches_merged:
  "processBatches up pairs i acc = acc @ List.map_filter (processTicker up) (drop i pairs)"
proof (induction up pairs i acc rule: processBatches.induct)
  case (1 up pairs i acc)
  show ?case
  proof (cases "i < length pairs")
    case False
    then show ?thesis by (subst processBatches.simps) simp
  next
    case True
    have d: "drop i pairs = take BATCH_SIZE (drop i pairs) @ drop (i + BATCH_SIZE) pairs"
      by (metis add.commute append_take_drop_id drop_drop)
    have "processBatches up pairs i acc
            = processBatches up pairs (i + BATCH_SIZE)
                (acc @ List.map_filter (processTicker up) (take BATCH_SIZE (drop i pairs)))"
      using True by (subst processBatches.simps) (simp only: if_True Let_def map_filter_collect)
    also have "\<dots> = (acc @ List.map_filter (processTicker up) (take BATCH_SIZE (drop i pairs)))
                       @ List.map_filter (processTicker up) (drop (i + BATCH_SIZE) pairs)"
      using "1.IH"[OF True refl refl refl, unfolded map_filter_collect] .
    also have "\<dots> = acc @ List.map_filter (processTicker up) (drop i pairs)"
      by (subst (2) d) (simp only: map_filter_append append_assoc)
    finally show ?thesis .
  qed
qed

lemma buildRecord_Some:
  assumes "buildRecord symb price vol klines klines4h oi = Some r"
  shows "symbol r = symb \<and> currentPrice r = price \<and> volume r = vol
         \<and> klines \<noteq> [] \<and> hasValidClose klines \<and> hasMinVolume vol \<and> hasRecentData klines"
  using assms
  by (auto simp: buildRecord_def Let_def split: if_splits prod.splits)

lemma buildRecord_accepts:
  assumes "klines \<noteq> []" "hasValidClose klines" "hasMinVolume vol" "hasRecentData klines"
  shows "\<exists>r. buildRecord symb price vol klines klines4h oi = Some r"
  using assms by (simp add: buildRecord_def Let_def split: prod.splits)

text \<open>The fields of a record are the indicators of its price and its daily candles.\<close>

lemma buildRecord_fields:
  assumes "buildRecord symb price vol klines klines4h oi = Some r"
  shows "dailyReturn r = calcDailyReturn price klines
         \<and> weeklyReturn r = calcWeeklyReturn price klines
         \<and> monthlyReturn r = calcMonthlyReturn price klines
         \<and> vwap7d r = vwap (calculateVWAP price klines 7)
         \<and> vwapDistance7d r = distance (calculateVWAP price klines 7)
         \<and> vwap30d r = vwap (calculateVWAP price klines 30)
         \<and> vwapDistance30d r = distance (calculateVWAP price klines 30)
         \<and> vwap90d r = vwap (calculateVWAP price klines 90)
         \<and> vwapDistance90d r = distance (calculateVWAP price klines 90)
         \<and> vwap365d r = vwap (calculateVWAP price klines 365)
         \<and> vwapDistance365d r = distance (calculateVWAP price klines 365)
         \<and> ema2001d r = fst (emaWithPrice price klines)
         \<and> zScore r = calcZScore price (calcDailyReturn price klines) klines"
  using assms
  by (auto simp: buildRecord_def Let_def split: if_splits prod.splits)

lemma processTicker_Some:
  assumes "processTicker up t = Some r"
  shows "\<not> invalidPrice (lastPrice t)
         \<and> (\<exists>klines klines4h.
               fetchKlines up (t_symbol t) ''1d'' = Some klines
               \<and> buildRecord (t_symbol t) (lastPrice t) (quoteVolume t) klines klines4h
                    (openInterestChanges up (t_symbol t)) = Some r)"
  using assms
  by (auto simp: processTicker_def Let_def split: if_splits option.splits)

lemma processTicker_record:
  assumes "processTicker up t = Some r"
  shows "symbol r = t_symbol t \<and> volume r = quoteVolume t \<and> currentPrice r = lastPrice t
         \<and> hasMinVolume (quoteVolume t)
         \<and> (\<exists>klines. fetchKlines up (t_symbol t) ''1d'' = Some klines \<and> hasRecentData klines)"
proof -
  from processTicker_Some[OF assms] obtain klines klines4h where
    k: "fetchKlines up (t_symbol t) ''1d'' = Some klines"
    and b: "buildRecord (t_symbol t) (lastPrice t) (quoteVolume t) klines klines4h
              (openInterestChanges up (t_symbol t)) = Some r"
    by blast
  from buildRecord_Some[OF b] k show ?thesis by blast
qed

lemma pipeline_resolved:
  assumes "exchangeInfoApi up = Resolves symbols" "tickerApi up = Resolves tickers"
  shows "pipeline up =
     (let sorted = sortBy (\<lambda>a b. jsub (volume b) (volume a))
                     (List.map_filter (processTicker up) (usdtPairs symbols tickers))
      in if sorted = [] then Err500 else Ok200 sorted)"
  using assms by (simp add: pipeline_def Let_def processBatches_merged)

lemma pipeline_Ok:
  assumes "pipeline up = Ok200 recs"
  shows "\<exists>symbols tickers.
           exchangeInfoApi up = Resolves symbols \<and> tickerApi up = Resolves tickers
           \<and> recs = sortBy (\<lambda>a b. jsub (volume b) (volume a))
                      (List.map_filter (processTicker up) (usdtPairs symbols tickers))"
  using assms
  by (auto simp: pipeline_def Let_def processBatches_merged errorResponse_def
      split: attempt.splits if_splits)

lemma hasRecentData_iff:
  "hasRecentData klines \<longleftrightarrow>
     2 \<le> length klines \<and> jgt (k_close (klines ! (length klines - 2))) (Fin 0)
     \<and> \<not> isNaN (k_close (klines ! (length klines - 2)))"
  by (simp add: hasRecentData_def yesterdayClose_def)

lemma jge_not_jlt: "jge a b \<Longrightarrow> \<not> jlt a b"
  by (cases a; cases b) (auto simp: jlt_def)

text \<open>
  C7. In every successful pipeline run, every record of the output has a 24h quote
  volume of at least 10,000, so none is below it, and the daily candles fetched for
  its symbol number at least two, with a second-to-last close that is positive and not
  \<^verbatim>\<open>NaN\<close>. A candidate that fails one of the two tests is dropped by its task
  before the merge.
\<close>

theorem validity_gate:
  "pipeline up = Ok200 recs \<Longrightarrow>
   \<forall>r \<in> set recs.
     jge (volume r) (Fin 10000) \<and> \<not> jlt (volume r) (Fin 10000)
     \<and> (\<exists>klines. fetchKlines up (symbol r) ''1d'' = Some klines
           \<and> 2 \<le> length klines
           \<and> jgt (k_close (klines ! (length klines - 2))) (Fin 0)
           \<and> \<not> isNaN (k_close (klines ! (length klines - 2))))"
proof
  fix r
  assume ok: "pipeline up = Ok200 recs" and r: "r \<in> set recs"
  from pipeline_Ok[OF ok] obtain symbols tickers where
    recs: "recs = sortBy (\<lambda>a b. jsub (volume b) (volume a))
                    (List.map_filter (processTicker up) (usdtPairs symbols tickers))"
    by blast
  with r obtain t where "processTicker up t = Some r"
    by (auto simp: set_sortBy set_map_filter)
  from processTicker_record[OF this] obtain klines where
    s: "symbol r = t_symbol t" "volume r = quoteVolume t" "hasMinVolume (quoteVolume t)"
    and k: "fetchKlines up (t_symbol t) ''1d'' = Some klines" "hasRecentData klines"
    by blast
  from s have v: "jge (volume r) (Fin 10000)" by (simp add: hasMinVolume_def)
  from k s have "\<exists>klines. fetchKlines up (symbol r) ''1d'' = Some klines
           \<and> 2 \<le> length klines
           \<and> jgt (k_close (klines ! (length klines - 2))) (Fin 0)
           \<and> \<not> isNaN (k_close (klines ! (length klines - 2)))"
    using hasRecentData_iff by auto
  with v jge_not_jlt[OF v]
  show "jge (volume r) (Fin 10000) \<and> \<not> jlt (volume r) (Fin 10000)
     \<and> (\<exists>klines. fetchKlines up (symbol r) ''1d'' = Some klines
           \<and> 2 \<le> length klines
           \<and> jgt (k_close (klines ! (length klines - 2))) (Fin 0)
           \<and> \<not> isNaN (k_close (klines ! (length klines - 2))))"
    by blast
qed


lemma sample_fetch:
  "fetchKlines (sampleUpstream ts) symb interval = Some [flatCandle 90, flatCandle 95]"
  by (simp add: fetchKlines_def sampleUpstream_def retryWithBackoffDefault_def
      retryWithBackoff_def retryLoop_resolves settle_def klinesOf_def)

lemma sample_task:
  assumes "\<not> invalidPrice (lastPrice t)" "hasMinVolume (quoteVolume t)"
  shows "\<exists>r. processTicker (sampleUpstream ts) t = Some r
             \<and> symbol r = t_symbol t \<and> volume r = quoteVolume t"
proof -
  let ?ks = "[flatCandle 90, flatCandle 95]"
  have "?ks \<noteq> []" "hasValidClose ?ks" "hasRecentData ?ks"
    by (simp_all add: hasValidClose_def hasRecentData_def yesterdayClose_def flatCandle_def)
  with assms(2) obtain r where
    r: "buildRecord (t_symbol t) (lastPrice t) (quoteVolume t) ?ks ?ks
          (openInterestChanges (sampleUpstream ts) (t_symbol t)) = Some r"
    using buildRecord_accepts by blast
  then have "processTicker (sampleUpstream ts) t = Some r"
    using assms(1) by (simp add: processTicker_def Let_def sample_fetch)
  with buildRecord_Some[OF r] show ?thesis by blast
qed

lemma sample_btc:
  "\<exists>r. processTicker (sampleUpstream ts) btcTicker = Some r
       \<and> symbol r = ''BTCUSDT'' \<and> volume r = Fin 50000"
  using sample_task[of btcTicker ts]
  by (simp add: btcTicker_def invalidPrice_def hasMinVolume_def jle_def)

lemma sample_eth:
  "\<exists>r. processTicker (sampleUpstream ts) ethTicker = Some r
       \<and> symbol r = ''ETHUSDT'' \<and> volume r = Fin 60000"
  using sample_task[of ethTicker ts]
  by (simp add: ethTicker_def invalidPrice_def hasMinVolume_def jle_def)

lemma sample_apis:
  "exchangeInfoApi (sampleUpstream ts) = Resolves [btcInfo, ethInfo, xrpInfo]"
  "tickerApi (sampleUpstream ts) = Resolves ts"
  by (simp_all add: sampleUpstream_def)

lemma sample_pipeline:
  "\<exists>e b. pipeline (sampleUpstream [btcTicker, xrpTicker, ethTicker]) = Ok200 [e, b]
         \<and> symbol e = ''ETHUSDT'' \<and> volume e = Fin 60000
         \<and> symbol b = ''BTCUSDT'' \<and> volume b = Fin 50000"
proof -
  let ?up = "sampleUpstream [btcTicker, xrpTicker, ethTicker]"
  from sample_eth obtain e where
    e: "processTicker ?up ethTicker = Some e" "symbol e = ''ETHUSDT''" "volume e = Fin 60000"
    by blast
  from sample_btc obtain b where
    b: "processTicker ?up btcTicker = Some b" "symbol b = ''BTCUSDT''" "volume b = Fin 50000"
    by blast
  have "List.map_filter (processTicker ?up) [ethTicker, btcTicker] = [e, b]"
    using e b by simp
  then have "pipeline ?up = Ok200 [e, b]"
    using pipeline_resolved[OF sample_apis, of "[btcTicker, xrpTicker, ethTicker]"] e b
    by (simp add: sample_universe sortBy_def jsub_def)
  with e b show ?thesis by blast
qed

lemma sample_pipeline_twice:
  "\<exists>b. pipeline (sampleUpstream [btcTicker, btcTicker]) = Ok200 [b, b]
       \<and> symbol b = ''BTCUSDT''"
proof -
  let ?up = "sampleUpstream [btcTicker, btcTicker]"
  from sample_btc obtain b where
    b: "processTicker ?up btcTicker = Some b" "symbol b = ''BTCUSDT''" "volume b = Fin 50000"
    by blast
  have u: "usdtPairs [btcInfo, ethInfo, xrpInfo] [btcTicker, btcTicker] = [btcTicker, btcTicker]"
    by (simp add: usdtPairs_def sortBy_def tickerFilter_def activeSymbols_def endsWith_def
        btcInfo_def ethInfo_def xrpInfo_def btcTicker_def jsub_def)
  have "pipeline ?up = Ok200 [b, b]"
    using pipeline_resolved[OF sample_apis, of "[btcTicker, btcTicker]"] b
    by (simp add: u sortBy_def jsub_def)
  with b show ?thesis by blast
qed

lemma sample_pipeline_solo:
  "\<exists>b. pipeline (sampleUpstream [btcTicker]) = Ok200 [b]"
proof -
  let ?up = "sampleUpstream [btcTicker]"
  from sample_btc obtain b where
    b: "processTicker ?up btcTicker = Some b" "symbol b = ''BTCUSDT''" "volume b = Fin 50000"
    by blast
  have u: "usdtPairs [btcInfo, ethInfo, xrpInfo] [btcTicker] = [btcTicker]"
    by (simp add: usdtPairs_def sortBy_def tickerFilter_def activeSymbols_def endsWith_def
        btcInfo_def ethInfo_def xrpInfo_def btcTicker_def jsub_def)
  have "pipeline ?up = Ok200 [b]"
    using pipeline_resolved[OF sample_apis, of "[btcTicker]"] b
    by (simp add: u sortBy_def)
  then show ?thesis by blast
qed

theorem validity_gate_witness:
  "\<exists>e b. pipeline (sampleUpstream [btcTicker, xrpTicker, ethTicker]) = Ok200 [e, b]
         \<and> jge (volume e) (Fin 10000) \<and> jge (volume b) (Fin 10000)
         \<and> fetchKlines (sampleUpstream [btcTicker, xrpTicker, ethTicker]) (symbol e) ''1d''
             = Some [flatCandle 90, flatCandle 95]"
proof -
  from sample_pipeline obtain e b where
    p: "pipeline (sampleUpstream [btcTicker, xrpTicker, ethTicker]) = Ok200 [e, b]"
    by blast
  from validity_gate[OF p] have "jge (volume e) (Fin 10000) \<and> jge (volume b) (Fin 10000)"
    by simp
  with p sample_fetch show ?thesis by blast
qed

lemma distinct_symbols_merged:
  assumes "distinct (map t_symbol pairs)"
  shows "distinct (map symbol (List.map_filter (processTicker up) pairs))"
proof -
  have "map symbol (List.map_filter (processTicker up) xs)
          = map t_symbol (filter (\<lambda>t. processTicker up t \<noteq> None) xs)" for xs
  proof (induction xs)
    case Nil
    then show ?case by simp
  next
    case (Cons x xs)
    then show ?case
      using processTicker_record[of up x] by (cases "processTicker up x") auto
  qed
  with assms show ?thesis by (simp add: distinct_map_filter)
qed

lemma distinct_symbols_universe:
  assumes "distinct (map t_symbol tickers)"
  shows "distinct (map t_symbol (usdtPairs symbols tickers))"
proof -
  have "distinct (map t_symbol (filter (tickerFilter (activeSymbols symbols)) tickers))"
    using assms by (rule distinct_map_filter)
  then have "distinct (map t_symbol
      (sortBy (\<lambda>a b. jsub (quoteVolume b) (quoteVolume a))
         (filter (tickerFilter (activeSymbols symbols)) tickers)))"
    by (simp add: distinct_map_sortBy)
  then show ?thesis
    by (simp add: usdtPairs_def take_map[symmetric])
qed

text \<open>
  C8, as the code has it. In every successful pipeline run the output is in descending
  order of volume, and records of equal volume keep the order of the resolved
  universe: \<^verbatim>\<open>Promise.allSettled\<close> keeps the order of each batch whatever the order in
  which its tasks finish, so the merged list is in universe order before it is sorted.
  The pipeline removes no duplicates: the output has no duplicate symbol when the
  ticker feed lists no symbol twice.
\<close>

theorem output_order:
  "pipeline up = Ok200 recs \<Longrightarrow>
   exchangeInfoApi up = Resolves symbols \<Longrightarrow> tickerApi up = Resolves tickers \<Longrightarrow>
   sorted_wrt (\<lambda>a b. jge (volume a) (volume b)) recs
   \<and> (\<forall>v. filter (\<lambda>r. volume r = v) recs
          = filter (\<lambda>r. volume r = v)
              (List.map_filter (processTicker up) (usdtPairs symbols tickers)))
   \<and> (distinct (map t_symbol tickers) \<longrightarrow> distinct (map symbol recs))"
proof -
  assume ok: "pipeline up = Ok200 recs"
    and ex: "exchangeInfoApi up = Resolves symbols" and ti: "tickerApi up = Resolves tickers"
  let ?merged = "List.map_filter (processTicker up) (usdtPairs symbols tickers)"
  from pipeline_Ok[OF ok] ex ti
  have recs: "recs = sortBy (\<lambda>a b. jsub (volume b) (volume a)) ?merged" by simp
  have "\<forall>r \<in> set ?merged. \<not> isNaN (volume r)"
  proof
    fix r assume "r \<in> set ?merged"
    then obtain t where "processTicker up t = Some r" by (auto simp: set_map_filter)
    from processTicker_record[OF this] have "jge (volume r) (Fin 10000)"
      by (simp add: hasMinVolume_def)
    then show "\<not> isNaN (volume r)" using jge_not_NaN by blast
  qed
  then have srt: "sorted_wrt (\<lambda>a b. jge (volume a) (volume b)) recs"
    unfolding recs by (rule sorted_sortBy)
  have ties: "\<forall>v. filter (\<lambda>r. volume r = v) recs = filter (\<lambda>r. volume r = v) ?merged"
    unfolding recs by (simp add: stable_sortBy)
  have dis: "distinct (map symbol recs)" if "distinct (map t_symbol tickers)"
    unfolding recs
    using distinct_symbols_merged[OF distinct_symbols_universe[OF that]]
    by (simp add: distinct_map_sortBy)
  from srt ties dis show ?thesis by blast
qed

theorem output_order_witness:
  "\<exists>e b. pipeline (sampleUpstream [btcTicker, xrpTicker, ethTicker]) = Ok200 [e, b]
         \<and> distinct (map t_symbol [btcTicker, xrpTicker, ethTicker])
         \<and> distinct (map symbol [e, b])
         \<and> sorted_wrt (\<lambda>a b. jge (volume a) (volume b)) [e, b]"
proof -
  from sample_pipeline obtain e b where
    p: "pipeline (sampleUpstream [btcTicker, xrpTicker, ethTicker]) = Ok200 [e, b]"
    by blast
  have d: "distinct (map t_symbol [btcTicker, xrpTicker, ethTicker])"
    by (simp add: btcTicker_def xrpTicker_def ethTicker_def)
  from output_order[OF p sample_apis] d
  have "distinct (map symbol [e, b]) \<and> sorted_wrt (\<lambda>a b. jge (volume a) (volume b)) [e, b]"
    by blast
  with p d show ?thesis by blast
qed

text \<open>A ticker feed that lists a symbol twice gives an output with that symbol twice.\<close>

theorem duplicate_symbols_counterexample:
  "\<exists>b. pipeline (sampleUpstream [btcTicker, btcTicker]) = Ok200 [b, b]
       \<and> \<not> distinct (map symbol [b, b])"
  using sample_pipeline_twice by auto

section \<open>Properties of the cache\<close>

lemma runEvents_Nil: "runEvents s [] = s"
  by (simp add: runEvents_def)

lemma runEvents_Cons: "runEvents s (e # es) = runEvents (step s e) es"
  by (simp add: runEvents_def)

lemma arrive_hit:
  "store s cacheKey = Some entry \<Longrightarrow> now - timestamp entry < CACHE_TTL \<Longrightarrow>
   step s (Arrive now) = s\<lparr>responses := responses s @ [Ok200 (data entry)]\<rparr>"
  by (simp add: cacheLookup_def)

lemma arrive_miss:
  "store s cacheKey = None \<Longrightarrow>
   step s (Arrive now) = s\<lparr>pipelineRuns := pipelineRuns s + 1\<rparr>"
  by (simp add: cacheLookup_def)

lemma arrive_expired:
  "store s cacheKey = Some entry \<Longrightarrow> \<not> now - timestamp entry < CACHE_TTL \<Longrightarrow>
   step s (Arrive now) = s\<lparr>pipelineRuns := pipelineRuns s + 1\<rparr>"
  by (simp add: cacheLookup_def)

lemma complete_ok:
  "pipeline up = Ok200 d \<Longrightarrow>
   step s (Complete up finished) =
     s\<lparr>store := (store s)(cacheKey \<mapsto> \<lparr>data = d, timestamp = finished\<rparr>),
       responses := responses s @ [Ok200 d]\<rparr>"
  by simp

text \<open>
  A request that nothing interleaves with is an arrival, followed on a miss by the end
  of its own execution; answered from the cache it reads nothing from the exchange.
\<close>

lemma handler_hit:
  "c cacheKey = Some entry \<Longrightarrow> now - timestamp entry < CACHE_TTL \<Longrightarrow>
   handler up now finished c = (Ok200 (data entry), c)"
  by (simp add: handler_def cacheLookup_def)

lemma handler_as_events:
  "store (runEvents s (if cacheLookup (store s) now = None
                       then [Arrive now, Complete up finished] else [Arrive now]))
     = snd (handler up now finished (store s))"
  by (cases "cacheLookup (store s) now"; cases "pipeline up")
     (simp_all add: handler_def runEvents_def)

declare step.simps [simp del]

lemma hits_in_window:
  "store s cacheKey = Some entry \<Longrightarrow>
   \<forall>now \<in> set arrivals. now - timestamp entry < CACHE_TTL \<Longrightarrow>
   runEvents s (map Arrive arrivals) =
     s\<lparr>responses := responses s @ replicate (length arrivals) (Ok200 (data entry))\<rparr>"
proof (induction arrivals arbitrary: s)
  case Nil
  then show ?case by (simp add: runEvents_Nil)
next
  case (Cons a arrivals)
  let ?s = "s\<lparr>responses := responses s @ [Ok200 (data entry)]\<rparr>"
  have st: "step s (Arrive a) = ?s" using Cons.prems by (simp add: arrive_hit)
  have "store ?s cacheKey = Some entry" using Cons.prems by simp
  with Cons have "runEvents ?s (map Arrive arrivals) =
     ?s\<lparr>responses := responses ?s @ replicate (length arrivals) (Ok200 (data entry))\<rparr>"
    by simp
  then show ?case by (simp add: runEvents_Cons st replicate_app_Cons_same)
qed

lemma misses_not_coalesced:
  "store s cacheKey = None \<Longrightarrow>
   runEvents s (map Arrive arrivals) = s\<lparr>pipelineRuns := pipelineRuns s + length arrivals\<rparr>"
proof (induction arrivals arbitrary: s)
  case Nil
  then show ?case by (simp add: runEvents_Nil)
next
  case (Cons a arrivals)
  let ?s = "s\<lparr>pipelineRuns := pipelineRuns s + 1\<rparr>"
  have st: "step s (Arrive a) = ?s" using Cons.prems by (simp add: arrive_miss)
  have "store ?s cacheKey = None" using Cons.prems by simp
  with Cons have "runEvents ?s (map Arrive arrivals) =
     ?s\<lparr>pipelineRuns := pipelineRuns ?s + length arrivals\<rparr>"
    by simp
  then show ?case by (simp add: runEvents_Cons st)
qed

lemma expired_not_coalesced:
  "store s cacheKey = Some entry \<Longrightarrow>
   \<forall>now \<in> set arrivals. CACHE_TTL \<le> now - timestamp entry \<Longrightarrow>
   runEvents s (map Arrive arrivals) = s\<lparr>pipelineRuns := pipelineRuns s + length arrivals\<rparr>"
proof (induction arrivals arbitrary: s)
  case Nil
  then show ?case by (simp add: runEvents_Nil)
next
  case (Cons a arrivals)
  let ?s = "s\<lparr>pipelineRuns := pipelineRuns s + 1\<rparr>"
  have st: "step s (Arrive a) = ?s" using Cons.prems by (simp add: arrive_expired)
  have "store ?s cacheKey = Some entry" using Cons.prems by simp
  with Cons have "runEvents ?s (map Arrive arrivals) =
     ?s\<lparr>pipelineRuns := pipelineRuns ?s + length arrivals\<rparr>"
    by simp
  then show ?case by (simp add: runEvents_Cons st)
qed

text \<open>
  C6, as the code has it. A successful pipeline execution that ends at time
  \<open>finished\<close> stores its record set with that timestamp. Requests that arrive while
  the stored entry is younger than two minutes (120000 ms) are all answered with the
  stored record set, start no pipeline execution and leave the cache as it is; so they
  receive identical data, and the execution that filled the cache is the only one.
  Requests are not coalesced: each of the requests that arrive while the cache is empty,
  and each of the requests that arrive when the stored entry is two minutes old or
  older, starts a pipeline execution of its own, and none of them is answered on
  arrival.
\<close>

theorem cache_window:
  "(pipeline up = Ok200 d \<longrightarrow>
      store (step s0 (Complete up finished)) cacheKey = Some \<lparr>data = d, timestamp = finished\<rparr>)
   \<and> (store s cacheKey = Some entry
        \<and> (\<forall>now \<in> set arrivals. now - timestamp entry < CACHE_TTL) \<longrightarrow>
      runEvents s (map Arrive arrivals) =
        s\<lparr>responses := responses s @ replicate (length arrivals) (Ok200 (data entry))\<rparr>)
   \<and> (store s cacheKey = None \<longrightarrow>
      runEvents s (map Arrive arrivals) =
        s\<lparr>pipelineRuns := pipelineRuns s + length arrivals\<rparr>)
   \<and> (store s cacheKey = Some entry
        \<and> (\<forall>now \<in> set late. CACHE_TTL \<le> now - timestamp entry) \<longrightarrow>
      runEvents s (map Arrive late) =
        s\<lparr>pipelineRuns := pipelineRuns s + length late\<rparr>)"
  using hits_in_window[of s entry arrivals] misses_not_coalesced[of s arrivals]
    expired_not_coalesced[of s entry late]
  by (simp add: complete_ok)

text \<open>
  One execution ends at 1000 ms. The requests at 1001, 60000 and 120999 ms are answered
  from the cache; the requests at 121000 ms (the entry is exactly two minutes old) and
  at 300000 ms each start an execution. Three requests at an empty cache start three.
\<close>

theorem cache_window_witness:
  "\<exists>b. pipeline (sampleUpstream [btcTicker]) = Ok200 [b]
       \<and> responses (runEvents emptyServer
            (Arrive 0 # Complete (sampleUpstream [btcTicker]) 1000
               # map Arrive [1001, 60000, 120999]))
           = [Ok200 [b], Ok200 [b], Ok200 [b], Ok200 [b]]
       \<and> pipelineRuns (runEvents emptyServer
            (Arrive 0 # Complete (sampleUpstream [btcTicker]) 1000
               # map Arrive [1001, 60000, 120999])) = 1
       \<and> responses (runEvents emptyServer
            (Arrive 0 # Complete (sampleUpstream [btcTicker]) 1000
               # map Arrive [121000, 300000]))
           = [Ok200 [b]]
       \<and> pipelineRuns (runEvents emptyServer
            (Arrive 0 # Complete (sampleUpstream [btcTicker]) 1000
               # map Arrive [121000, 300000])) = 3
       \<and> pipelineRuns (runEvents emptyServer (map Arrive [0, 1, 2])) = 3"
proof -
  let ?up = "sampleUpstream [btcTicker]"
  from sample_pipeline_solo obtain b where b: "pipeline ?up = Ok200 [b]" by blast
  let ?cold = "step emptyServer (Arrive 0)"
  let ?s = "step ?cold (Complete ?up 1000)"
  let ?entry = "\<lparr>data = [b], timestamp = 1000\<rparr>"
  have s0: "?cold = emptyServer\<lparr>pipelineRuns := 1\<rparr>"
    by (simp add: arrive_miss emptyServer_def)
  from cache_window[of ?up "[b]" ?cold 1000 ?s ?entry "[1001, 60000, 120999]"] b
  have st: "store ?s cacheKey = Some ?entry" by blast
  have win: "\<forall>now \<in> set [1001, 60000, 120999 :: int]. now - timestamp ?entry < CACHE_TTL"
    by (simp add: CACHE_TTL_def)
  have old: "\<forall>now \<in> set [121000, 300000 :: int]. CACHE_TTL \<le> now - timestamp ?entry"
    by (simp add: CACHE_TTL_def)
  from cache_window[of ?up "[b]" ?cold 1000 ?s ?entry "[1001, 60000, 120999]"] st win
  have run: "runEvents ?s (map Arrive [1001, 60000, 120999]) =
        ?s\<lparr>responses := responses ?s @ replicate (length [1001, 60000, 120999 :: int])
                                         (Ok200 (data ?entry))\<rparr>"
    by blast
  from cache_window[of ?up "[b]" ?cold 1000 ?s ?entry "[]" "[121000, 300000]"] st old
  have late: "runEvents ?s (map Arrive [121000, 300000]) =
        ?s\<lparr>pipelineRuns := pipelineRuns ?s + length [121000, 300000 :: int]\<rparr>"
    by blast
  have s: "?s = emptyServer\<lparr>pipelineRuns := 1,
                store := (store emptyServer)(cacheKey \<mapsto> ?entry),
                responses := [Ok200 [b]]\<rparr>"
    unfolding complete_ok[OF b] s0 by (simp add: emptyServer_def)
  have none: "store emptyServer cacheKey = None" by (simp add: emptyServer_def)
  from cache_window[of ?up "[b]" ?cold 1000 emptyServer ?entry "[0, 1, 2]"] none
  have cold: "runEvents emptyServer (map Arrive [0, 1, 2]) =
        emptyServer\<lparr>pipelineRuns := pipelineRuns emptyServer + length [0, 1, 2 :: int]\<rparr>"
    by blast
  have "runEvents emptyServer (Arrive 0 # Complete ?up 1000 # map Arrive [1001, 60000, 120999])
          = runEvents ?s (map Arrive [1001, 60000, 120999])"
    by (simp only: runEvents_Cons)
  moreover have "runEvents emptyServer (Arrive 0 # Complete ?up 1000 # map Arrive [121000, 300000])
          = runEvents ?s (map Arrive [121000, 300000])"
    by (simp only: runEvents_Cons)
  ultimately show ?thesis using run late s cold b
    by (simp add: emptyServer_def numeral_eq_Suc)
qed

text \<open>
  Two requests arrive before any execution has finished, and each starts its own. The
  first execution ends at 8000 ms and the second at 9000 ms. The requests at 8500 ms
  and at 9500 ms both arrive within two minutes of the first successful run, and they
  receive different record sets.
\<close>

theorem overlapping_runs_counterexample:
  "\<exists>dA dB.
     pipeline (sampleUpstream [btcTicker, xrpTicker, ethTicker]) = Ok200 dA
     \<and> pipeline (sampleUpstream [btcTicker]) = Ok200 dB
     \<and> dA \<noteq> dB
     \<and> responses (runEvents emptyServer
          [Arrive 0, Arrive 1000,
           Complete (sampleUpstream [btcTicker, xrpTicker, ethTicker]) 8000,
           Arrive 8500,
           Complete (sampleUpstream [btcTicker]) 9000,
           Arrive 9500])
         = [Ok200 dA, Ok200 dA, Ok200 dB, Ok200 dB]
     \<and> pipelineRuns (runEvents emptyServer
          [Arrive 0, Arrive 1000,
           Complete (sampleUpstream [btcTicker, xrpTicker, ethTicker]) 8000,
           Arrive 8500,
           Complete (sampleUpstream [btcTicker]) 9000,
           Arrive 9500]) = 2"
proof -
  from sample_pipeline obtain e b where
    a: "pipeline (sampleUpstream [btcTicker, xrpTicker, ethTicker]) = Ok200 [e, b]" by blast
  from sample_pipeline_solo obtain b' where
    b: "pipeline (sampleUpstream [btcTicker]) = Ok200 [b']" by blast
  have "[e, b] \<noteq> [b']" by simp
  moreover have "responses (runEvents emptyServer
          [Arrive 0, Arrive 1000,
           Complete (sampleUpstream [btcTicker, xrpTicker, ethTicker]) 8000,
           Arrive 8500,
           Complete (sampleUpstream [btcTicker]) 9000,
           Arrive 9500])
         = [Ok200 [e, b], Ok200 [e, b], Ok200 [b'], Ok200 [b']]"
    by (simp add: runEvents_def step.simps a b cacheLookup_def emptyServer_def CACHE_TTL_def)
  moreover have "pipelineRuns (runEvents emptyServer
          [Arrive 0, Arrive 1000,
           Complete (sampleUpstream [btcTicker, xrpTicker, ethTicker]) 8000,
           Arrive 8500,
           Complete (sampleUpstream [btcTicker]) 9000,
           Arrive 9500]) = 2"
    by (simp add: runEvents_def step.simps a b cacheLookup_def emptyServer_def CACHE_TTL_def)
  ultimately show ?thesis using a b by blast
qed


end
